theory Spec2Isabelle
  imports Complex_Main "HOL-Library.AList" "HOL-Library.Sublist"
begin

section \<open>Common Python notions\<close>

text \<open>
  Dictionaries keep insertion order, so every store of the program is an association
  list: \<open>map_of d k\<close> is \<open>d.get(k)\<close>, \<open>AList.update k v d\<close> is \<open>d[k] = v\<close> (an existing
  key keeps its place, a new key goes to the end) and \<open>AList.delete k d\<close> is
  \<open>del d[k]\<close>. A \<open>Decimal\<close> is the rational number it denotes; a text that
  \<open>Decimal(...)\<close> rejects is \<open>BadStr\<close>. Exceptions are values of \<open>py_error\<close>.
  Every \<open>datetime.now()\<close> is an argument of the function that reads the clock.
\<close>

datatype py_error = TypeError | ValueError | KeyError | InvalidOperation | ApiError

datatype dec_str = DecStr rat | BadStr

fun Decimal :: "dec_str \<Rightarrow> py_error + rat" where
  "Decimal (DecStr r) = Inr r"
| "Decimal BadStr = Inl InvalidOperation"

text \<open>\<open>Decimal(str(d.get(key, 0)))\<close>: a missing key reads as zero.\<close>

fun Decimal_get :: "dec_str option \<Rightarrow> py_error + rat" where
  "Decimal_get None = Inr 0"
| "Decimal_get (Some s) = Decimal s"

text \<open>
  A \<open>datetime\<close> is naive or aware; an aware one is its instant in microseconds of UTC.
  Comparing a naive with an aware one raises \<open>TypeError\<close>. The range of
  \<open>datetime\<close> (years 1 to 9999) is not modelled.
\<close>

datatype datetime = Naive int | Aware int

fun dt_plus_minutes :: "datetime \<Rightarrow> int \<Rightarrow> datetime" where
  "dt_plus_minutes (Naive t) g = Naive (t + g * 60000000)"
| "dt_plus_minutes (Aware t) g = Aware (t + g * 60000000)"

fun dt_ge :: "datetime \<Rightarrow> datetime \<Rightarrow> py_error + bool" where
  "dt_ge (Aware a) (Aware b) = Inr (a \<ge> b)"
| "dt_ge (Naive a) (Naive b) = Inr (a \<ge> b)"
| "dt_ge (Aware a) (Naive b) = Inl TypeError"
| "dt_ge (Naive a) (Aware b) = Inl TypeError"

fun dt_le :: "datetime \<Rightarrow> datetime \<Rightarrow> py_error + bool" where
  "dt_le (Aware a) (Aware b) = Inr (a \<le> b)"
| "dt_le (Naive a) (Naive b) = Inr (a \<le> b)"
| "dt_le (Aware a) (Naive b) = Inl TypeError"
| "dt_le (Naive a) (Aware b) = Inl TypeError"

fun dt_lt :: "datetime \<Rightarrow> datetime \<Rightarrow> py_error + bool" where
  "dt_lt (Aware a) (Aware b) = Inr (a < b)"
| "dt_lt (Naive a) (Naive b) = Inr (a < b)"
| "dt_lt (Aware a) (Naive b) = Inl TypeError"
| "dt_lt (Naive a) (Aware b) = Inl TypeError"

text \<open>Python's short-circuit \<open>and\<close> on comparisons that may raise.\<close>

fun py_and :: "py_error + bool \<Rightarrow> py_error + bool \<Rightarrow> py_error + bool" where
  "py_and (Inl e) b = Inl e"
| "py_and (Inr False) b = Inr False"
| "py_and (Inr True) b = b"

section \<open>storage/market\_queue.py\<close>

record market_data =
  m_slug :: string
  m_entry_time :: string
  m_match_start_time :: string
  m_discovered_at :: string
  m_status :: string
  m_entered_at :: "string option"

record MarketQueue =
  grace_period_minutes :: int
  pending_markets :: "(string \<times> market_data) list"

definition add_pending_market ::
  "string \<Rightarrow> MarketQueue \<Rightarrow> string \<Rightarrow> string \<Rightarrow> string \<Rightarrow> MarketQueue" where
  "add_pending_market now_iso q slug entry_time match_start_time =
     (if map_of (pending_markets q) slug \<noteq> None then q
      else q\<lparr>pending_markets :=
        AList.update slug
          \<lparr>m_slug = slug, m_entry_time = entry_time,
           m_match_start_time = match_start_time,
           m_discovered_at = now_iso, m_status = ''pending'',
           m_entered_at = None\<rparr>
          (pending_markets q)\<rparr>)"

definition has_market :: "MarketQueue \<Rightarrow> string \<Rightarrow> bool" where
  "has_market q slug = (map_of (pending_markets q) slug \<noteq> None)"

text \<open>
  The body of the \<open>try\<close> in \<open>get_markets_ready_for_entry\<close>: \<open>fromisoformat\<close> is
  \<open>datetime.fromisoformat\<close>, \<open>None\<close> where it raises \<open>ValueError\<close>.
\<close>

definition entry_window ::
  "(string \<Rightarrow> datetime option) \<Rightarrow> int \<Rightarrow> datetime \<Rightarrow> market_data \<Rightarrow> py_error + bool" where
  "entry_window fromisoformat grace now md =
     (case fromisoformat (m_entry_time md) of
        None \<Rightarrow> Inl ValueError
      | Some entry_time \<Rightarrow>
          (case fromisoformat (m_match_start_time md) of
             None \<Rightarrow> Inl ValueError
           | Some match_start_time \<Rightarrow>
               (let grace_end = dt_plus_minutes entry_time grace
                in py_and (dt_ge now entry_time)
                     (py_and (dt_le now grace_end) (dt_lt now match_start_time)))))"

fun ready_loop ::
  "(string \<Rightarrow> datetime option) \<Rightarrow> int \<Rightarrow> datetime \<Rightarrow> (string \<times> market_data) list
     \<Rightarrow> string list \<Rightarrow> string list" where
  "ready_loop fromisoformat grace now [] ready_slugs = ready_slugs"
| "ready_loop fromisoformat grace now ((slug, md) # rest) ready_slugs =
     (if m_status md \<noteq> ''pending''
      then ready_loop fromisoformat grace now rest ready_slugs
      else (case entry_window fromisoformat grace now md of
              Inl e \<Rightarrow> ready_loop fromisoformat grace now rest ready_slugs
            | Inr True \<Rightarrow> ready_loop fromisoformat grace now rest (ready_slugs @ [slug])
            | Inr False \<Rightarrow> ready_loop fromisoformat grace now rest ready_slugs))"

text \<open>\<open>now\<close> is \<open>datetime.now(timezone.utc)\<close>, an aware datetime.\<close>

definition get_markets_ready_for_entry ::
  "(string \<Rightarrow> datetime option) \<Rightarrow> int \<Rightarrow> MarketQueue \<Rightarrow> string list" where
  "get_markets_ready_for_entry fromisoformat now q =
     ready_loop fromisoformat (grace_period_minutes q) (Aware now) (pending_markets q) []"

definition mark_market_entered :: "string \<Rightarrow> MarketQueue \<Rightarrow> string \<Rightarrow> MarketQueue" where
  "mark_market_entered now_iso q slug =
     (case map_of (pending_markets q) slug of
        None \<Rightarrow> q
      | Some md \<Rightarrow> q\<lparr>pending_markets :=
          AList.update slug (md\<lparr>m_status := ''entered'', m_entered_at := Some now_iso\<rparr>)
            (pending_markets q)\<rparr>)"

definition remove_market :: "MarketQueue \<Rightarrow> string \<Rightarrow> MarketQueue" where
  "remove_market q slug =
     (if map_of (pending_markets q) slug \<noteq> None
      then q\<lparr>pending_markets := AList.delete slug (pending_markets q)\<rparr>
      else q)"

section \<open>storage/price\_cache.py\<close>

text \<open>
  One value of the price cache file. \<open>cache_price\<close> writes \<open>price\<close>, \<open>team_name\<close>
  and \<open>cached_at\<close>; the executor, which reads the same file, looks for
  \<open>strong_team_price_cents\<close> and \<open>filled_entry_numbers\<close> as well. A \<open>float\<close> is the
  rational number that its \<open>str\<close> denotes (finite floats only).
\<close>

record price_data =
  c_price :: "dec_str option"
  c_team_name :: "string option"
  c_cached_at :: "string option"
  c_strong_team_price_cents :: "rat option"
  c_filled_entry_numbers :: "int list option"

type_synonym cached_prices = "(string \<times> price_data) list"

definition cache_key :: "string \<Rightarrow> string \<Rightarrow> string" where
  "cache_key market_slug token_id = market_slug @ '':'' @ token_id"

definition get_cached_price :: "cached_prices \<Rightarrow> string \<Rightarrow> string \<Rightarrow> py_error + rat option" where
  "get_cached_price cp market_slug token_id =
     (case map_of cp (cache_key market_slug token_id) of
        None \<Rightarrow> Inr None
      | Some pd \<Rightarrow>
          (case c_price pd of
             None \<Rightarrow> Inl KeyError
           | Some s \<Rightarrow> (case Decimal s of Inl e \<Rightarrow> Inl e | Inr r \<Rightarrow> Inr (Some r))))"

definition cache_price ::
  "string \<Rightarrow> cached_prices \<Rightarrow> string \<Rightarrow> string \<Rightarrow> rat \<Rightarrow> string \<Rightarrow> cached_prices" where
  "cache_price now_iso cp market_slug token_id price team_name =
     (if map_of cp (cache_key market_slug token_id) = None
      then AList.update (cache_key market_slug token_id)
             \<lparr>c_price = Some (DecStr price), c_team_name = Some team_name,
              c_cached_at = Some now_iso, c_strong_team_price_cents = None,
              c_filled_entry_numbers = None\<rparr> cp
      else cp)"

text \<open>A later \<open>cache_price\<close> call: its clock reading and its four arguments.\<close>

type_synonym put_call = "string \<times> string \<times> string \<times> rat \<times> string"

fun cache_price_call :: "cached_prices \<Rightarrow> put_call \<Rightarrow> cached_prices" where
  "cache_price_call cp (now_iso, market_slug, token_id, price, team_name) =
     cache_price now_iso cp market_slug token_id price team_name"

section \<open>monitor/order\_monitor.py\<close>

text \<open>
  A token id is \<open>None\<close> where the code holds Python's \<open>None\<close>
  (\<open>position.get('asset')\<close> of a position without that key).
\<close>

type_synonym token = "string option"

record order_data =
  o_order_id :: string
  o_token_id :: token
  o_market_slug :: string
  o_side :: string
  o_price :: dec_str
  o_size :: dec_str
  o_entry_number :: "int option"
  o_strong_team_price_cents :: "rat option"
  o_created_at :: string
  o_last_seen :: string
  o_disappeared_count :: int
  o_status :: string
  o_recreated_as :: "string option"

type_synonym tracked_orders = "(string \<times> order_data) list"

definition add_order ::
  "string \<Rightarrow> tracked_orders \<Rightarrow> string \<Rightarrow> token \<Rightarrow> string \<Rightarrow> string \<Rightarrow> rat \<Rightarrow> rat
     \<Rightarrow> int option \<Rightarrow> rat option \<Rightarrow> tracked_orders" where
  "add_order now_iso t order_id token_id market_slug side price size'
       entry_number strong_team_price_cents =
     AList.update order_id
       \<lparr>o_order_id = order_id, o_token_id = token_id, o_market_slug = market_slug,
        o_side = side, o_price = DecStr price, o_size = DecStr size',
        o_entry_number = entry_number,
        o_strong_team_price_cents = strong_team_price_cents,
        o_created_at = now_iso, o_last_seen = now_iso,
        o_disappeared_count = 0, o_status = ''active'',
        o_recreated_as = None\<rparr> t"

text \<open>\<open>if current_status:\<close> holds for a string that is given and not empty.\<close>

fun str_truthy :: "string option \<Rightarrow> bool" where
  "str_truthy None = False"
| "str_truthy (Some s) = (s \<noteq> [])"

definition update_order_status ::
  "string \<Rightarrow> tracked_orders \<Rightarrow> string \<Rightarrow> bool \<Rightarrow> string option \<Rightarrow> tracked_orders" where
  "update_order_status now_iso t order_id still_exists current_status =
     (case map_of t order_id of
        None \<Rightarrow> t
      | Some order \<Rightarrow>
          (if still_exists
           then AList.update order_id
                  (order\<lparr>o_last_seen := now_iso, o_disappeared_count := 0,
                         o_status := (case current_status of
                                        None \<Rightarrow> o_status order
                                      | Some s \<Rightarrow> if s \<noteq> [] then s else o_status order)\<rparr>) t
           else (let order1 = order\<lparr>o_disappeared_count := o_disappeared_count order + 1\<rparr>
                 in AList.update order_id
                      (if o_disappeared_count order1 \<ge> 1
                       then order1\<lparr>o_status := ''disappeared''\<rparr> else order1) t)))"

definition get_disappeared_orders :: "tracked_orders \<Rightarrow> order_data list" where
  "get_disappeared_orders t =
     map snd (filter (\<lambda>(order_id, od). o_status od = ''disappeared'') t)"

definition mark_order_filled :: "tracked_orders \<Rightarrow> string \<Rightarrow> tracked_orders" where
  "mark_order_filled t order_id =
     (case map_of t order_id of
        None \<Rightarrow> t
      | Some order \<Rightarrow> AList.update order_id (order\<lparr>o_status := ''filled''\<rparr>) t)"

definition mark_order_recreated :: "tracked_orders \<Rightarrow> string \<Rightarrow> string \<Rightarrow> tracked_orders" where
  "mark_order_recreated t old_order_id new_order_id =
     (case map_of t old_order_id of
        None \<Rightarrow> t
      | Some old_order \<Rightarrow>
          AList.update old_order_id
            (old_order\<lparr>o_status := ''recreated'', o_recreated_as := Some new_order_id\<rparr>) t)"

definition remove_order :: "tracked_orders \<Rightarrow> string \<Rightarrow> tracked_orders" where
  "remove_order t order_id =
     (if map_of t order_id \<noteq> None then AList.delete order_id t else t)"

definition get_active_orders_by_market :: "tracked_orders \<Rightarrow> string \<Rightarrow> order_data list" where
  "get_active_orders_by_market t market_slug =
     map snd (filter (\<lambda>(order_id, od). o_market_slug od = market_slug \<and>
                        o_status od \<in> set [''active'', ''disappeared'']) t)"

section \<open>execution/trade\_executor.py\<close>

text \<open>
  The venue client is a record of functions over a state \<open>'w\<close> of the outside world,
  which every call may change. A response is absent or empty (\<open>NoResponse\<close>) or a
  dictionary with or without an \<open>orderID\<close>. The executor keeps, beside what the class
  holds, the world and the list of the placement calls made so far with their
  results.
\<close>

datatype response = NoResponse | Response "string option"

record open_order =
  v_id :: "string option"
  v_asset_id :: token
  v_side :: "string option"
  v_original_size :: "dec_str option"

text \<open>A position as the exit pass reads it; \<open>outcome\<close>, only printed, is left out.\<close>

record position =
  p_asset :: token
  p_size :: "dec_str option"
  p_slug :: "string option"
  p_avgPrice :: "dec_str option"

record 'w client =
  get_open_orders :: "'w \<Rightarrow> open_order list \<times> 'w"
  get_all_positions :: "'w \<Rightarrow> position list \<times> 'w"
  get_token_balance :: "token \<Rightarrow> 'w \<Rightarrow> (py_error + rat) \<times> 'w"
  place_limit_buy :: "token \<Rightarrow> rat \<Rightarrow> rat \<Rightarrow> 'w \<Rightarrow> (py_error + response) \<times> 'w"
  place_limit_sell :: "token \<Rightarrow> rat \<Rightarrow> rat \<Rightarrow> 'w \<Rightarrow> (py_error + response) \<times> 'w"

datatype api_call =
  LimitBuy token rat rat "py_error + response"
| LimitSell token rat rat "py_error + response"

record 'w TradeExecutor =
  client :: "'w client"
  order_monitor :: tracked_orders
  market_scanner :: "(string \<Rightarrow> bool) option"
  market_queue :: "MarketQueue option"
  world :: 'w
  calls :: "api_call list"

definition place_take_profit_orders ::
  "string \<Rightarrow> 'w TradeExecutor \<Rightarrow> token \<Rightarrow> string \<Rightarrow> rat \<Rightarrow> rat
     \<Rightarrow> string option \<times> 'w TradeExecutor" where
  "place_take_profit_orders now_iso ex token_id market_slug tp_price position_size =
     (case place_limit_sell (client ex) token_id tp_price position_size (world ex) of
        (r, w1) \<Rightarrow>
          (let ex1 = ex\<lparr>world := w1,
                        calls := calls ex @ [LimitSell token_id tp_price position_size r]\<rparr>
           in case r of
                Inl e \<Rightarrow> (None, ex1)
              | Inr NoResponse \<Rightarrow> (None, ex1)
              | Inr (Response None) \<Rightarrow> (None, ex1)
              | Inr (Response (Some order_id)) \<Rightarrow>
                  (Some order_id,
                   ex1\<lparr>order_monitor :=
                     add_order now_iso (order_monitor ex1) order_id token_id market_slug
                       ''SELL'' tp_price position_size None None\<rparr>)))"

text \<open>
  Lines 195 to 207: the order is submitted again, as a buy of \<open>price * size\<close> USDC or
  as a sell of \<open>size\<close> shares; \<open>resubmit_call\<close> is the record of that call.
\<close>

definition resubmit ::
  "'w client \<Rightarrow> order_data \<Rightarrow> rat \<Rightarrow> rat \<Rightarrow> 'w \<Rightarrow> (py_error + response) \<times> 'w" where
  "resubmit cl order_data price size' w =
     (if o_side order_data = ''BUY''
      then place_limit_buy cl (o_token_id order_data) price (price * size') w
      else place_limit_sell cl (o_token_id order_data) price size' w)"

definition resubmit_call :: "order_data \<Rightarrow> rat \<Rightarrow> rat \<Rightarrow> py_error + response \<Rightarrow> api_call" where
  "resubmit_call order_data price size' r =
     (if o_side order_data = ''BUY''
      then LimitBuy (o_token_id order_data) price (price * size') r
      else LimitSell (o_token_id order_data) price size' r)"

text \<open>
  The body of the loop over the disappeared orders, lines 166 to 233: the state is
  the executor and \<open>recreated_count\<close>; every exception ends the iteration
  (\<open>continue\<close>). \<open>skipped_ended_markets\<close>, only printed, is left out.
\<close>

definition recreate_one ::
  "string \<Rightarrow> string list \<Rightarrow> 'w TradeExecutor \<times> int \<Rightarrow> order_data \<Rightarrow> 'w TradeExecutor \<times> int" where
  "recreate_one now_iso ended_markets st order_data =
     (case st of (ex, recreated_count) \<Rightarrow>
      (let market_slug = o_market_slug order_data in
       if market_slug \<in> set ended_markets
       then (ex\<lparr>order_monitor := remove_order (order_monitor ex) (o_order_id order_data),
                market_queue := map_option (\<lambda>q. remove_market q market_slug) (market_queue ex)\<rparr>,
             recreated_count)
       else
        (let token_id = o_token_id order_data in
         case get_token_balance (client ex) token_id (world ex) of
           (Inl e, w1) \<Rightarrow> (ex\<lparr>world := w1\<rparr>, recreated_count)
         | (Inr existing_balance, w1) \<Rightarrow>
             if existing_balance > 1 / 10
             then (ex\<lparr>world := w1,
                      order_monitor :=
                        mark_order_filled (order_monitor ex) (o_order_id order_data)\<rparr>,
                   recreated_count)
             else
              (let side = o_side order_data in
               case Decimal (o_price order_data) of
                 Inl e \<Rightarrow> (ex\<lparr>world := w1\<rparr>, recreated_count)
               | Inr price \<Rightarrow>
                  (case Decimal (o_size order_data) of
                     Inl e \<Rightarrow> (ex\<lparr>world := w1\<rparr>, recreated_count)
                   | Inr size' \<Rightarrow>
                      (case resubmit (client ex) order_data price size' w1 of
                         (r, w2) \<Rightarrow>
                          (let ex2 = ex\<lparr>world := w2,
                                 calls := calls ex @
                                   [resubmit_call order_data price size' r]\<rparr>
                           in case r of
                                Inl e \<Rightarrow> (ex2, recreated_count)
                              | Inr NoResponse \<Rightarrow> (ex2, recreated_count)
                              | Inr (Response None) \<Rightarrow> (ex2, recreated_count)
                              | Inr (Response (Some new_order_id)) \<Rightarrow>
                                  (ex2\<lparr>order_monitor :=
                                     mark_order_recreated
                                       (add_order now_iso (order_monitor ex2) new_order_id
                                          token_id market_slug side price size'
                                          (o_entry_number order_data) None)
                                       (o_order_id order_data) new_order_id\<rparr>,
                                   recreated_count + 1))))))))"

text \<open>The markets of the batch check, lines 156 to 161.\<close>

definition ended_markets_of :: "(string \<Rightarrow> bool) option \<Rightarrow> order_data list \<Rightarrow> string list" where
  "ended_markets_of scanner disappeared =
     (case scanner of
        None \<Rightarrow> []
      | Some is_market_active \<Rightarrow>
          filter (\<lambda>market_slug. \<not> is_market_active market_slug)
            (remdups (map o_market_slug disappeared)))"

definition open_order_ids_of :: "open_order list \<Rightarrow> string list" where
  "open_order_ids_of open_orders =
     concat (map (\<lambda>order. case v_id order of
                             None \<Rightarrow> []
                           | Some i \<Rightarrow> if i \<noteq> [] then [i] else []) open_orders)"

definition check_and_recreate_orders ::
  "string \<Rightarrow> 'w TradeExecutor \<Rightarrow> int \<times> 'w TradeExecutor" where
  "check_and_recreate_orders now_iso ex =
     (case get_open_orders (client ex) (world ex) of
        (open_orders, w1) \<Rightarrow>
         (let open_order_ids = open_order_ids_of open_orders;
              t1 = foldl (\<lambda>t order_id.
                            update_order_status now_iso t order_id
                              (order_id \<in> set open_order_ids) None)
                     (order_monitor ex) (map fst (order_monitor ex));
              ex1 = ex\<lparr>world := w1, order_monitor := t1\<rparr>;
              disappeared = get_disappeared_orders t1
          in if disappeared = [] then (0, ex1)
             else (let ended_markets = ended_markets_of (market_scanner ex) disappeared
                   in case foldl (recreate_one now_iso ended_markets) (ex1, 0) disappeared of
                        (ex2, recreated_count) \<Rightarrow> (recreated_count, ex2))))"

subsection \<open>The exit pass\<close>

text \<open>Lines 286 to 294: the open sell size of every token. A size that is not a number
  raises out of the whole pass, since this loop stands outside every \<open>try\<close>.\<close>

fun build_existing_sell_orders ::
  "open_order list \<Rightarrow> (token \<rightharpoonup> rat) \<Rightarrow> py_error + (token \<rightharpoonup> rat)" where
  "build_existing_sell_orders [] existing_sell_orders = Inr existing_sell_orders"
| "build_existing_sell_orders (order # rest) existing_sell_orders =
     (if v_side order = Some ''SELL''
      then (let token_id = v_asset_id order in
            case Decimal_get (v_original_size order) of
              Inl e \<Rightarrow> Inl e
            | Inr size' \<Rightarrow>
                build_existing_sell_orders rest
                  (existing_sell_orders(token_id \<mapsto>
                     (case existing_sell_orders token_id of None \<Rightarrow> 0 | Some s \<Rightarrow> s) + size')))
      else build_existing_sell_orders rest existing_sell_orders)"

text \<open>\<open>existing_sell_orders.get(token_id, Decimal("0"))\<close>\<close>

definition sell_size :: "(token \<rightharpoonup> rat) \<Rightarrow> token \<Rightarrow> rat" where
  "sell_size existing_sell_orders token_id =
     (case existing_sell_orders token_id of None \<Rightarrow> 0 | Some s \<Rightarrow> s)"

text \<open>Truth values of Python: a number is true when it is given and not zero, a
  dictionary when it has a key.\<close>

fun rat_truthy :: "rat option \<Rightarrow> bool" where
  "rat_truthy None = False"
| "rat_truthy (Some x) = (x \<noteq> 0)"

fun int_truthy :: "int option \<Rightarrow> bool" where
  "int_truthy None = False"
| "int_truthy (Some n) = (n \<noteq> 0)"

definition dict_truthy :: "price_data \<Rightarrow> bool" where
  "dict_truthy pd =
     (c_price pd \<noteq> None \<or> c_team_name pd \<noteq> None \<or> c_cached_at pd \<noteq> None \<or>
      c_strong_team_price_cents pd \<noteq> None \<or> c_filled_entry_numbers pd \<noteq> None)"

fun str_token :: "token \<Rightarrow> string" where
  "str_token None = ''None''"
| "str_token (Some t) = t"

text \<open>Lines 340 to 349: the loop over the tracked orders of the market, with
  \<open>strong_team_price_cents\<close>, \<open>entry_price\<close> and \<open>filled_entry_numbers\<close> as its state.\<close>

fun scan_tracked ::
  "token \<Rightarrow> order_data list \<Rightarrow> rat option \<times> rat option \<times> int list
     \<Rightarrow> py_error + (rat option \<times> rat option \<times> int list)" where
  "scan_tracked token_id [] st = Inr st"
| "scan_tracked token_id (order_data # rest) (strong_team_price_cents, entry_price, filled) =
     (let strong1 = (if rat_truthy (o_strong_team_price_cents order_data)
                     then o_strong_team_price_cents order_data
                     else strong_team_price_cents)
      in if o_token_id order_data = token_id \<and> o_side order_data = ''BUY''
         then (case Decimal (o_price order_data) of
                 Inl e \<Rightarrow> Inl e
               | Inr p \<Rightarrow>
                   scan_tracked token_id rest
                     (strong1, Some p,
                      if int_truthy (o_entry_number order_data)
                      then List.insert (the (o_entry_number order_data)) filled
                      else filled))
         else scan_tracked token_id rest (strong1, entry_price, filled))"

text \<open>Lines 332 to 356: the start price rebuilt from the ledger.\<close>

definition start_price_from_tracking ::
  "tracked_orders \<Rightarrow> string \<Rightarrow> token \<Rightarrow> py_error + price_data option" where
  "start_price_from_tracking t market_slug token_id =
     (case scan_tracked token_id (get_active_orders_by_market t market_slug) (None, None, []) of
        Inl e \<Rightarrow> Inl e
      | Inr (strong_team_price_cents, entry_price, filled) \<Rightarrow>
          (if rat_truthy entry_price \<and> rat_truthy strong_team_price_cents
           then Inr (Some \<lparr>c_price = map_option DecStr entry_price, c_team_name = None,
                            c_cached_at = None,
                            c_strong_team_price_cents = strong_team_price_cents,
                            c_filled_entry_numbers = Some filled\<rparr>)
           else Inr None))"

text \<open>
  Lines 363 to 406: the take-profit price of a start price, \<open>None\<close> where the code
  skips the position. The two operations on floats that round are arguments:
  \<open>to_float\<close> is \<open>float(d)\<close> of a \<open>Decimal\<close> and \<open>float_sub\<close> the subtraction of
  two floats.
\<close>

definition tp_price_of ::
  "(rat \<Rightarrow> rat) \<Rightarrow> (rat \<Rightarrow> rat \<Rightarrow> rat) \<Rightarrow> price_data \<Rightarrow> py_error + rat option" where
  "tp_price_of to_float float_sub start_price_data =
     (let strong_team_price_cents = c_strong_team_price_cents start_price_data in
      case Decimal_get (c_price start_price_data) of
        Inl e \<Rightarrow> Inl e
      | Inr entry_price \<Rightarrow>
         (let entry_price_cents = to_float (entry_price * 100) in
          case strong_team_price_cents of
            None \<Rightarrow> Inr None
          | Some strong_price_cents \<Rightarrow>
              if strong_price_cents = 0 then Inr None
              else if strong_price_cents > 75 then Inr None
              else if strong_price_cents \<le> 60
              then (if entry_price_cents \<ge> 24
                    then Inr (Some (strong_price_cents / 100 - 2 / 100))
                    else Inr (Some (float_sub 102 strong_price_cents / 100)))
              else (let filled_entries =
                          (case c_filled_entry_numbers start_price_data of
                             None \<Rightarrow> [] | Some xs \<Rightarrow> xs);
                        num_entries_filled = length filled_entries
                    in if num_entries_filled < 2 then Inr None
                       else Inr (Some (strong_price_cents / 100 - 2 / 100)))))"

text \<open>Lines 328 to 361: the start price of a position, from the cache or else from
  the ledger; \<open>None\<close> is the skip for manual management.\<close>

definition resolve_start_price ::
  "cached_prices \<Rightarrow> tracked_orders \<Rightarrow> string \<Rightarrow> token \<Rightarrow> py_error + price_data option" where
  "resolve_start_price price_cache t market_slug token_id =
     (let cache_key = market_slug @ '':'' @ str_token token_id;
          start_price_data = map_of price_cache cache_key
      in case start_price_data of
           Some pd \<Rightarrow>
             if dict_truthy pd then Inr (Some pd)
             else start_price_from_tracking t market_slug token_id
         | None \<Rightarrow> start_price_from_tracking t market_slug token_id)"

text \<open>
  The body of the loop over the positions, lines 301 to 428: the state is the
  executor, \<open>existing_sell_orders\<close> and \<open>tp_placed\<close>; an exception ends the iteration.
\<close>

type_synonym 'w tp_state = "'w TradeExecutor \<times> (token \<rightharpoonup> rat) \<times> int"

definition tp_one ::
  "string \<Rightarrow> (rat \<Rightarrow> rat) \<Rightarrow> (rat \<Rightarrow> rat \<Rightarrow> rat) \<Rightarrow> string set \<Rightarrow> cached_prices
     \<Rightarrow> 'w tp_state \<Rightarrow> position \<Rightarrow> 'w tp_state" where
  "tp_one now_iso to_float float_sub already_profitable_markets price_cache st position =
     (case st of (ex, existing_sell_orders, tp_placed) \<Rightarrow>
      (let token_id = p_asset position in
       case Decimal_get (p_size position) of
         Inl e \<Rightarrow> st
       | Inr position_size \<Rightarrow>
        (let market_slug = (case p_slug position of None \<Rightarrow> ''unknown'' | Some s \<Rightarrow> s) in
         case Decimal_get (p_avgPrice position) of
           Inl e \<Rightarrow> st
         | Inr avg_price \<Rightarrow>
            if position_size < 1 / 10 then st
            else if market_slug \<in> already_profitable_markets then st
            else
             (let existing_sell_size = sell_size existing_sell_orders token_id;
                  unsold_position = position_size - existing_sell_size
              in if unsold_position \<le> 1 / 10 then st
                 else
                  (case resolve_start_price price_cache (order_monitor ex)
                          market_slug token_id of
                     Inl e \<Rightarrow> st
                   | Inr None \<Rightarrow> st
                   | Inr (Some start_price_data) \<Rightarrow>
                      (case tp_price_of to_float float_sub start_price_data of
                         Inl e \<Rightarrow> st
                       | Inr None \<Rightarrow> st
                       | Inr (Some tp_price) \<Rightarrow>
                          (case place_take_profit_orders now_iso ex token_id market_slug
                                  tp_price unsold_position of
                             (tp_order_id, ex1) \<Rightarrow>
                               if str_truthy tp_order_id
                               then (ex1,
                                     existing_sell_orders(token_id \<mapsto>
                                       sell_size existing_sell_orders token_id
                                         + unsold_position),
                                     tp_placed + 1)
                               else (ex1, existing_sell_orders, tp_placed))))))))"

text \<open>The parameter \<open>strategy\<close> is never read by the pass and is left out.\<close>

definition check_filled_positions_and_set_tp ::
  "string \<Rightarrow> (rat \<Rightarrow> rat) \<Rightarrow> (rat \<Rightarrow> rat \<Rightarrow> rat) \<Rightarrow> 'w TradeExecutor \<Rightarrow> string set
     \<Rightarrow> cached_prices \<Rightarrow> py_error + (int \<times> 'w TradeExecutor)" where
  "check_filled_positions_and_set_tp now_iso to_float float_sub ex
       already_profitable_markets price_cache =
     (case get_all_positions (client ex) (world ex) of
        (all_positions, w1) \<Rightarrow>
          if all_positions = [] then Inr (0, ex\<lparr>world := w1\<rparr>)
          else
           (case get_open_orders (client ex) w1 of
              (all_open_orders, w2) \<Rightarrow>
               (case build_existing_sell_orders all_open_orders Map.empty of
                  Inl e \<Rightarrow> Inl e
                | Inr existing_sell_orders \<Rightarrow>
                   (case foldl (tp_one now_iso to_float float_sub
                                  already_profitable_markets price_cache)
                           (ex\<lparr>world := w2\<rparr>, existing_sell_orders, 0) all_positions of
                      (ex1, existing1, tp_placed) \<Rightarrow> Inr (tp_placed, ex1)))))"

text \<open>
  The sell orders a pass issued, read off the recorded calls: a sell is issued when
  the venue answered with an order id that is not empty, which is when
  \<open>place_take_profit_orders\<close> returns an id that the pass counts.
\<close>

fun issued_size :: "token \<Rightarrow> api_call \<Rightarrow> rat" where
  "issued_size t (LimitSell t' p s (Inr (Response (Some order_id)))) =
     (if t' = t \<and> order_id \<noteq> [] then s else 0)"
| "issued_size t (LimitSell t' p s (Inr (Response None))) = 0"
| "issued_size t (LimitSell t' p s (Inr NoResponse)) = 0"
| "issued_size t (LimitSell t' p s (Inl e)) = 0"
| "issued_size t (LimitBuy t' p a r) = 0"

definition issued_total :: "token \<Rightarrow> api_call list \<Rightarrow> rat" where
  "issued_total t cs = sum_list (map (issued_size t) cs)"

section \<open>Concrete scenarios\<close>

text \<open>A parser of three timestamps, a queue with two markets, and a ledger in which
  order \<open>O1\<close> vanished.\<close>

definition fromisoformat_sample :: "string \<Rightarrow> datetime option" where
  "fromisoformat_sample s =
     (if s = ''T100'' then Some (Aware 100)
      else if s = ''T900000000'' then Some (Aware 900000000)
      else if s = ''N100'' then Some (Naive 100) else None)"

definition queue_sample :: MarketQueue where
  "queue_sample =
     add_pending_market ''d2''
       (add_pending_market ''d1'' \<lparr>grace_period_minutes = 2, pending_markets = []\<rparr>
          ''m1'' ''T100'' ''T900000000'')
       ''m2'' ''N100'' ''T900000000''"

definition order_sample :: order_data where
  "order_sample =
     \<lparr>o_order_id = ''O1'', o_token_id = Some ''T'', o_market_slug = ''S'',
      o_side = ''BUY'', o_price = DecStr (1 / 4), o_size = DecStr 10,
      o_entry_number = Some 1, o_strong_team_price_cents = Some 70,
      o_created_at = ''t0'', o_last_seen = ''t0'', o_disappeared_count = 1,
      o_status = ''disappeared'', o_recreated_as = None\<rparr>"

definition ledger_disappeared :: tracked_orders where
  "ledger_disappeared =
     update_order_status ''t1''
       (add_order ''t0'' [] ''O1'' (Some ''T'') ''S'' ''BUY'' (1 / 4) 10 (Some 1) (Some 70))
       ''O1'' False None"

text \<open>The ledger after a pass that recreated \<open>O1\<close> as \<open>O2\<close>, a venue on which only
  \<open>O2\<close> is open and the balance of every token is zero, and the executor on them.\<close>

definition ledger_recreated :: tracked_orders where
  "ledger_recreated =
     mark_order_recreated
       (add_order ''t1'' ledger_disappeared
          ''O2'' (Some ''T'') ''S'' ''BUY'' (1 / 4) 10 (Some 1) None)
       ''O1'' ''O2''"

definition venue_sample :: "nat client" where
  "venue_sample =
     \<lparr>get_open_orders = (\<lambda>w. ([\<lparr>v_id = Some ''O2'', v_asset_id = Some ''T'',
                                   v_side = Some ''BUY'',
                                   v_original_size = Some (DecStr 10)\<rparr>], w)),
      get_all_positions = (\<lambda>w. ([], w)),
      get_token_balance = (\<lambda>token_id w. (Inr 0, w)),
      place_limit_buy = (\<lambda>token_id price amount w. (Inr (Response (Some ''O3'')), Suc w)),
      place_limit_sell = (\<lambda>token_id price size' w. (Inr (Response (Some ''S1'')), Suc w))\<rparr>"

definition executor_sample :: "nat TradeExecutor" where
  "executor_sample =
     \<lparr>client = venue_sample, order_monitor = ledger_recreated,
      market_scanner = Some (\<lambda>slug. True), market_queue = None,
      world = 0, calls = []\<rparr>"

text \<open>A venue with a given balance and a given answer to every placement, and the
  executor that finds \<open>O1\<close> vanished on it, with a queue that holds market \<open>S\<close>.\<close>

definition venue_with :: "rat \<Rightarrow> py_error + response \<Rightarrow> nat client" where
  "venue_with balance answer =
     \<lparr>get_open_orders = (\<lambda>w. ([], w)),
      get_all_positions = (\<lambda>w. ([], w)),
      get_token_balance = (\<lambda>token_id w. (Inr balance, w)),
      place_limit_buy = (\<lambda>token_id price amount w. (answer, Suc w)),
      place_limit_sell = (\<lambda>token_id price size' w. (answer, Suc w))\<rparr>"

definition executor_with :: "bool \<Rightarrow> rat \<Rightarrow> py_error + response \<Rightarrow> nat TradeExecutor" where
  "executor_with active balance answer =
     \<lparr>client = venue_with balance answer, order_monitor = ledger_disappeared,
      market_scanner = Some (\<lambda>slug. active),
      market_queue = Some (add_pending_market ''d1''
                             \<lparr>grace_period_minutes = 2, pending_markets = []\<rparr>
                             ''S'' ''T100'' ''T900000000''),
      world = 0, calls = []\<rparr>"

text \<open>The executor whose ledger holds \<open>O1\<close> as \<open>disappeared\<close> while the venue lists
  \<open>O1\<close> among the open orders again; the market is active and the balance is zero.\<close>

definition executor_reobserved :: "nat TradeExecutor" where
  "executor_reobserved =
     \<lparr>client =
        \<lparr>get_open_orders = (\<lambda>w. ([\<lparr>v_id = Some ''O1'', v_asset_id = Some ''T'',
                                      v_side = Some ''BUY'',
                                      v_original_size = Some (DecStr 10)\<rparr>], w)),
         get_all_positions = (\<lambda>w. ([], w)),
         get_token_balance = (\<lambda>token_id w. (Inr 0, w)),
         place_limit_buy = (\<lambda>token_id price amount w. (Inr (Response (Some ''O9'')), Suc w)),
         place_limit_sell = (\<lambda>token_id price size' w. (Inr (Response (Some ''S1'')), Suc w))\<rparr>,
      order_monitor = ledger_disappeared,
      market_scanner = Some (\<lambda>slug. True), market_queue = None,
      world = 0, calls = []\<rparr>"

text \<open>One iteration of the recreation loop on that executor, for order \<open>O1\<close>.\<close>

definition step_sample :: "bool \<Rightarrow> rat \<Rightarrow> py_error + response \<Rightarrow> nat TradeExecutor \<times> int" where
  "step_sample active balance answer =
     recreate_one ''t2''
       (ended_markets_of (market_scanner (executor_with active balance answer)) [order_sample])
       (executor_with active balance answer, 0) order_sample"

text \<open>
  Samples for the exit pass: a cache entry that carries a strong-team price and two
  filled entries, a position on token \<open>T\<close> of market \<open>S\<close>, an open sell of 3 shares, a
  venue that accepts every sell, a ledger with both entry orders of the market, and
  the pass run on them with exact float operations.
\<close>

definition cache_sample :: cached_prices where
  "cache_sample =
     [(''S:T'', \<lparr>c_price = Some (DecStr (3 / 10)), c_team_name = Some ''Blue'',
                 c_cached_at = Some ''c0'', c_strong_team_price_cents = Some 70,
                 c_filled_entry_numbers = Some [1, 2]\<rparr>)]"

definition position_sample :: "rat \<Rightarrow> position" where
  "position_sample sz =
     \<lparr>p_asset = Some ''T'', p_size = Some (DecStr sz), p_slug = Some ''S'',
      p_avgPrice = Some (DecStr (1 / 4))\<rparr>"

text \<open>
  \<open>PolymarketClient.get_all_positions\<close> builds every position with the keys
  \<open>token_id\<close>, \<open>balance\<close>, \<open>outcome\<close>, \<open>market_slug\<close> and \<open>condition_id\<close> (lines 508 to
  514 of the client). The exit pass reads \<open>asset\<close>, \<open>size\<close>, \<open>slug\<close> and \<open>avgPrice\<close>, so
  this is such a position as the pass reads it.
\<close>

definition position_from_client :: position where
  "position_from_client = \<lparr>p_asset = None, p_size = None, p_slug = None, p_avgPrice = None\<rparr>"

definition sell_order_sample :: open_order where
  "sell_order_sample =
     \<lparr>v_id = Some ''X1'', v_asset_id = Some ''T'', v_side = Some ''SELL'',
      v_original_size = Some (DecStr 3)\<rparr>"

definition exit_executor ::
  "tracked_orders \<Rightarrow> position list \<Rightarrow> open_order list \<Rightarrow> nat TradeExecutor" where
  "exit_executor ledger positions open_orders =
     \<lparr>client =
        \<lparr>get_open_orders = (\<lambda>w. (open_orders, w)),
         get_all_positions = (\<lambda>w. (positions, w)),
         get_token_balance = (\<lambda>token_id w. (Inr 0, w)),
         place_limit_buy = (\<lambda>token_id price amount w. (Inr NoResponse, Suc w)),
         place_limit_sell = (\<lambda>token_id price size' w. (Inr (Response (Some ''S1'')), Suc w))\<rparr>,
      order_monitor = ledger, market_scanner = None, market_queue = None,
      world = 0, calls = []\<rparr>"

definition ledger_entries :: tracked_orders where
  "ledger_entries =
     add_order ''t1''
       (add_order ''t0'' [] ''B1'' (Some ''T'') ''S'' ''BUY'' (42 / 100) 8 (Some 1) (Some 70))
       ''B2'' (Some ''T'') ''S'' ''BUY'' (27 / 100) 13 (Some 2) (Some 70)"

definition exit_pass_sample ::
  "tracked_orders \<Rightarrow> position list \<Rightarrow> open_order list \<Rightarrow> cached_prices
     \<Rightarrow> (int \<times> api_call list) option" where
  "exit_pass_sample ledger positions open_orders price_cache =
     (case check_filled_positions_and_set_tp ''t3'' (\<lambda>d. d) (\<lambda>a b. a - b)
             (exit_executor ledger positions open_orders) {} price_cache of
        Inl e \<Rightarrow> None
      | Inr (tp_placed, ex1) \<Rightarrow> Some (tp_placed, calls ex1))"

section \<open>Properties of the admission queue\<close>

lemma ready_loop_acc:
  "ready_loop f g now xs acc = acc @ ready_loop f g now xs []"
proof (induction xs arbitrary: acc)
  case Nil
  show ?case by simp
next
  case (Cons x xs)
  obtain slug md where x: "x = (slug, md)" by (cases x)
  have step: "ready_loop f g now xs (acc @ [slug]) = acc @ [slug] @ ready_loop f g now xs []"
    using Cons.IH [of "acc @ [slug]"] by simp
  have step0: "ready_loop f g now xs [slug] = [slug] @ ready_loop f g now xs []"
    using Cons.IH [of "[slug]"] by simp
  show ?case
    using Cons.IH [of acc] step step0
    by (simp add: x split: sum.splits bool.splits)
qed

lemma ready_loop_set:
  "set (ready_loop f g now xs []) =
     {slug. \<exists>md. (slug, md) \<in> set xs \<and> m_status md = ''pending'' \<and>
                  entry_window f g now md = Inr True}"
proof (induction xs)
  case Nil
  show ?case by simp
next
  case (Cons x xs)
  obtain slug md where x: "x = (slug, md)" by (cases x)
  have acc: "ready_loop f g now xs [slug] = slug # ready_loop f g now xs []"
    using ready_loop_acc [of f g now xs "[slug]"] by simp
  show ?case
    using Cons.IH acc
    by (auto simp: x split: sum.splits bool.splits)
qed

lemma ready_loop_keys:
  "set (ready_loop f g now xs []) \<subseteq> fst ` set xs"
  using ready_loop_set [of f g now xs] by force

lemma ready_loop_distinct:
  "distinct (map fst xs) \<Longrightarrow> distinct (ready_loop f g now xs [])"
proof (induction xs)
  case Nil
  show ?case by simp
next
  case (Cons x xs)
  obtain slug md where x: "x = (slug, md)" by (cases x)
  have acc: "ready_loop f g now xs [slug] = slug # ready_loop f g now xs []"
    using ready_loop_acc [of f g now xs "[slug]"] by simp
  have notin: "slug \<notin> set (ready_loop f g now xs [])"
    using Cons.prems ready_loop_keys [of f g now xs] by (auto simp: x)
  show ?case
    using Cons acc notin
    by (simp add: x split: sum.splits bool.splits)
qed

lemma py_and_True_iff:
  "py_and a b = Inr True \<longleftrightarrow> a = Inr True \<and> b = Inr True"
  by (cases "(a, b)" rule: py_and.cases) auto

lemma entry_window_True_iff:
  "entry_window f g (Aware now) md = Inr True \<longleftrightarrow>
     (\<exists>e m. f (m_entry_time md) = Some (Aware e) \<and> f (m_match_start_time md) = Some (Aware m) \<and>
            e \<le> now \<and> now \<le> e + g * 60000000 \<and> now < m)"
proof (cases "f (m_entry_time md)")
  case None
  then show ?thesis by (simp add: entry_window_def)
next
  case (Some et)
  show ?thesis
  proof (cases "f (m_match_start_time md)")
    case None
    then show ?thesis using Some by (simp add: entry_window_def)
  next
    case (Some mt)
    show ?thesis
      using \<open>f (m_entry_time md) = Some et\<close> Some
      by (cases et; cases mt) (auto simp: entry_window_def Let_def py_and_True_iff)
  qed
qed

text \<open>
  C8. \<open>get_markets_ready_for_entry\<close> returns exactly the slugs of the entries that
  are \<open>pending\<close> and whose two timestamps parse (as aware datetimes, the only ones
  that compare with the clock) to \<open>entry_time \<le> now \<le> entry_time + grace\<close> and
  \<open>now < match_start_time\<close>; no slug is returned twice.
\<close>

theorem ready_for_entry_exact:
  assumes "distinct (map fst (pending_markets q))"
  shows "set (get_markets_ready_for_entry fromisoformat now q) =
           {slug. \<exists>md. map_of (pending_markets q) slug = Some md \<and>
              m_status md = ''pending'' \<and>
              (\<exists>entry_time match_start_time.
                 fromisoformat (m_entry_time md) = Some (Aware entry_time) \<and>
                 fromisoformat (m_match_start_time md) = Some (Aware match_start_time) \<and>
                 entry_time \<le> now \<and>
                 now \<le> entry_time + grace_period_minutes q * 60000000 \<and>
                 now < match_start_time)}
         \<and> distinct (get_markets_ready_for_entry fromisoformat now q)"
proof -
  have mem: "\<And>slug md. (slug, md) \<in> set (pending_markets q) \<longleftrightarrow>
                map_of (pending_markets q) slug = Some md"
    using assms by (simp add: map_of_eq_Some_iff)
  show ?thesis
    unfolding get_markets_ready_for_entry_def
    using ready_loop_distinct [OF assms]
    by (simp add: ready_loop_set mem entry_window_True_iff)
qed

lemma queue_sample_eval:
  "pending_markets queue_sample =
     [(''m1'', \<lparr>m_slug = ''m1'', m_entry_time = ''T100'', m_match_start_time = ''T900000000'',
                m_discovered_at = ''d1'', m_status = ''pending'', m_entered_at = None\<rparr>),
      (''m2'', \<lparr>m_slug = ''m2'', m_entry_time = ''N100'', m_match_start_time = ''T900000000'',
                m_discovered_at = ''d2'', m_status = ''pending'', m_entered_at = None\<rparr>)]"
  by (simp add: queue_sample_def add_pending_market_def)

theorem ready_for_entry_exact_witness:
  "distinct (map fst (pending_markets queue_sample))
   \<and> get_markets_ready_for_entry fromisoformat_sample 5000 queue_sample = [''m1'']
   \<and> set (get_markets_ready_for_entry fromisoformat_sample 5000 queue_sample) =
       {slug. \<exists>md. map_of (pending_markets queue_sample) slug = Some md \<and>
          m_status md = ''pending'' \<and>
          (\<exists>entry_time match_start_time.
             fromisoformat_sample (m_entry_time md) = Some (Aware entry_time) \<and>
             fromisoformat_sample (m_match_start_time md) = Some (Aware match_start_time) \<and>
             entry_time \<le> 5000 \<and>
             5000 \<le> entry_time + grace_period_minutes queue_sample * 60000000 \<and>
             5000 < match_start_time)}"
proof -
  have d: "distinct (map fst (pending_markets queue_sample))"
    by (simp add: queue_sample_eval)
  have v: "get_markets_ready_for_entry fromisoformat_sample 5000 queue_sample = [''m1'']"
    by (simp add: get_markets_ready_for_entry_def queue_sample_eval entry_window_def
          fromisoformat_sample_def queue_sample_def add_pending_market_def)
  show ?thesis
    using d v ready_for_entry_exact [OF d, of fromisoformat_sample 5000] by blast
qed

lemma count_key_one:
  "distinct (map fst xs) \<Longrightarrow> map_of xs k = Some v \<Longrightarrow>
     length (filter (\<lambda>(k', v'). k' = k) xs) = 1"
proof (induction xs)
  case Nil
  then show ?case by simp
next
  case (Cons x xs)
  obtain k0 v0 where x: "x = (k0, v0)" by (cases x)
  show ?case
  proof (cases "k0 = k")
    case True
    have "k \<notin> fst ` set xs" using Cons.prems(1) True by (simp add: x)
    then have "filter (\<lambda>(k', v'). k' = k) xs = []"
      by (force simp: filter_empty_conv)
    then show ?thesis using True by (simp add: x)
  next
    case False
    then show ?thesis using Cons by (simp add: x)
  qed
qed

lemma add_pending_market_present:
  "map_of (pending_markets q) slug \<noteq> None \<Longrightarrow>
     add_pending_market now_iso q slug entry_time match_start_time = q"
  by (simp add: add_pending_market_def)

lemma add_pending_market_has:
  "map_of (pending_markets (add_pending_market now_iso q slug e m)) slug \<noteq> None"
  by (simp add: add_pending_market_def update_conv')

lemma add_pending_market_distinct:
  "distinct (map fst (pending_markets q)) \<Longrightarrow>
     distinct (map fst (pending_markets (add_pending_market now_iso q slug e m)))"
  by (simp add: add_pending_market_def distinct_update)

text \<open>
  C7. A second \<open>add_pending_market\<close> for a slug that is already queued changes
  nothing: the queue is the one the first call left, it holds exactly one entry for
  the slug, and where the first call created the entry it still carries the first
  call's \<open>entry_time\<close>, \<open>match_start_time\<close>, \<open>discovered_at\<close> and status \<open>pending\<close>.
\<close>

theorem add_pending_market_idempotent:
  assumes "distinct (map fst (pending_markets q))"
  shows "add_pending_market now2 (add_pending_market now1 q slug e1 m1) slug e2 m2
           = add_pending_market now1 q slug e1 m1
         \<and> length (filter (\<lambda>(k, md). k = slug)
              (pending_markets
                 (add_pending_market now2 (add_pending_market now1 q slug e1 m1) slug e2 m2))) = 1
         \<and> (map_of (pending_markets q) slug = None \<longrightarrow>
              map_of (pending_markets
                 (add_pending_market now2 (add_pending_market now1 q slug e1 m1) slug e2 m2)) slug
                = Some \<lparr>m_slug = slug, m_entry_time = e1, m_match_start_time = m1,
                         m_discovered_at = now1, m_status = ''pending'',
                         m_entered_at = None\<rparr>)"
proof -
  let ?q1 = "add_pending_market now1 q slug e1 m1"
  have noop: "add_pending_market now2 ?q1 slug e2 m2 = ?q1"
    by (rule add_pending_market_present) (rule add_pending_market_has)
  obtain md where md: "map_of (pending_markets ?q1) slug = Some md"
    using add_pending_market_has [of now1 q slug e1 m1] by auto
  have one: "length (filter (\<lambda>(k, md). k = slug) (pending_markets ?q1)) = 1"
    using count_key_one [OF add_pending_market_distinct [OF assms] md] .
  have first: "map_of (pending_markets q) slug = None \<longrightarrow>
      map_of (pending_markets ?q1) slug
        = Some \<lparr>m_slug = slug, m_entry_time = e1, m_match_start_time = m1,
                 m_discovered_at = now1, m_status = ''pending'', m_entered_at = None\<rparr>"
    by (simp add: add_pending_market_def update_conv')
  show ?thesis using noop one first by simp
qed

theorem add_pending_market_idempotent_witness:
  "distinct (map fst (pending_markets queue_sample))
   \<and> map_of (pending_markets queue_sample) ''m3'' = None
   \<and> add_pending_market ''d4'' (add_pending_market ''d3'' queue_sample ''m3'' ''T100'' ''N100'')
         ''m3'' ''N100'' ''T100''
       = add_pending_market ''d3'' queue_sample ''m3'' ''T100'' ''N100''
   \<and> length (filter (\<lambda>(k, md). k = ''m3'')
        (pending_markets
           (add_pending_market ''d4''
              (add_pending_market ''d3'' queue_sample ''m3'' ''T100'' ''N100'')
              ''m3'' ''N100'' ''T100''))) = 1
   \<and> map_of (pending_markets
        (add_pending_market ''d4''
           (add_pending_market ''d3'' queue_sample ''m3'' ''T100'' ''N100'')
           ''m3'' ''N100'' ''T100'')) ''m3''
       = Some \<lparr>m_slug = ''m3'', m_entry_time = ''T100'', m_match_start_time = ''N100'',
                m_discovered_at = ''d3'', m_status = ''pending'', m_entered_at = None\<rparr>"
proof -
  have d: "distinct (map fst (pending_markets queue_sample))"
    by (simp add: queue_sample_eval)
  have n: "map_of (pending_markets queue_sample) ''m3'' = None"
    by (simp add: queue_sample_eval)
  show ?thesis
    using d n
      add_pending_market_idempotent [OF d, of "''d4''" "''d3''" "''m3''" "''T100''" "''N100''" "''N100''" "''T100''"]
    by blast
qed

section \<open>Properties of the price cache\<close>

lemma cache_price_keeps:
  "map_of cp k = Some v \<Longrightarrow> map_of (cache_price now_iso cp s t p n) k = Some v"
  by (auto simp: cache_price_def update_conv')

lemma cache_price_calls_keep:
  "map_of cp k = Some v \<Longrightarrow> map_of (foldl cache_price_call cp later) k = Some v"
proof (induction later arbitrary: cp)
  case Nil
  then show ?case by simp
next
  case (Cons c later)
  obtain now_iso s t p n where c: "c = (now_iso, s, t, p, n)" by (cases c)
  show ?case
    using Cons.IH [OF cache_price_keeps [OF Cons.prems, of now_iso s t p n]]
    by (simp add: c)
qed

lemma cache_price_has:
  "map_of (cache_price now_iso cp s t p n) (cache_key s t) \<noteq> None"
  by (simp add: cache_price_def update_conv')

text \<open>
  C6. After a \<open>cache_price\<close> call for a market and token, any sequence of later
  \<open>cache_price\<close> calls, for that key or for others and with any prices and team
  names, leaves the entry of the key as it was, so \<open>get_cached_price\<close> keeps its
  answer; where the first call created the entry, the answer is the first price.
\<close>

theorem cache_price_write_once:
  "map_of (foldl cache_price_call (cache_price now0 cp slug tok p0 n0) later) (cache_key slug tok)
     = map_of (cache_price now0 cp slug tok p0 n0) (cache_key slug tok)
   \<and> get_cached_price (foldl cache_price_call (cache_price now0 cp slug tok p0 n0) later) slug tok
     = get_cached_price (cache_price now0 cp slug tok p0 n0) slug tok
   \<and> (map_of cp (cache_key slug tok) = None \<longrightarrow>
        get_cached_price (foldl cache_price_call (cache_price now0 cp slug tok p0 n0) later)
          slug tok = Inr (Some p0))"
proof -
  let ?c1 = "cache_price now0 cp slug tok p0 n0"
  obtain v where v: "map_of ?c1 (cache_key slug tok) = Some v"
    using cache_price_has [of now0 cp slug tok p0 n0] by auto
  have keep: "map_of (foldl cache_price_call ?c1 later) (cache_key slug tok)
                = map_of ?c1 (cache_key slug tok)"
    using cache_price_calls_keep [OF v, of later] v by simp
  have get: "get_cached_price (foldl cache_price_call ?c1 later) slug tok
                = get_cached_price ?c1 slug tok"
    by (simp add: get_cached_price_def keep)
  have first: "map_of cp (cache_key slug tok) = None \<longrightarrow>
                 get_cached_price ?c1 slug tok = Inr (Some p0)"
    by (simp add: get_cached_price_def cache_price_def update_conv')
  show ?thesis using keep get first by simp
qed

theorem cache_price_write_once_witness:
  "map_of ([] :: cached_prices) (cache_key ''S'' ''T'') = None
   \<and> get_cached_price
        (foldl cache_price_call (cache_price ''c0'' [] ''S'' ''T'' (3 / 10) ''Blue'')
           [(''c1'', ''S'', ''T'', 9 / 10, ''Red''), (''c2'', ''S'', ''U'', 1 / 2, ''Red'')])
        ''S'' ''T'' = Inr (Some (3 / 10))"
proof -
  have n: "map_of ([] :: cached_prices) (cache_key ''S'' ''T'') = None"
    by simp
  show ?thesis
    using n cache_price_write_once [of "''c0''" "[]" "''S''" "''T''" "3 / 10" "''Blue''"
      "[(''c1'', ''S'', ''T'', 9 / 10, ''Red''), (''c2'', ''S'', ''U'', 1 / 2, ''Red'')]"]
    by blast
qed

section \<open>Properties of the order ledger\<close>

text \<open>
  C10. \<open>add_order\<close> is last write wins: whatever the ledger held under the order id,
  also an entry in a terminal state, the entry after the call is the new order with
  status \<open>active\<close> and \<open>disappeared_count\<close> 0.
\<close>

theorem add_order_last_write_wins:
  "map_of (add_order now_iso t order_id token_id market_slug side price size' entry_number strong)
     order_id
     = Some \<lparr>o_order_id = order_id, o_token_id = token_id, o_market_slug = market_slug,
              o_side = side, o_price = DecStr price, o_size = DecStr size',
              o_entry_number = entry_number, o_strong_team_price_cents = strong,
              o_created_at = now_iso, o_last_seen = now_iso,
              o_disappeared_count = 0, o_status = ''active'', o_recreated_as = None\<rparr>"
  by (simp add: add_order_def update_conv')

lemma ledger_disappeared_eval: "ledger_disappeared = [(''O1'', order_sample)]"
  by (simp add: ledger_disappeared_def order_sample_def add_order_def update_order_status_def)

text \<open>
  What \<open>update_order_status\<close> does to a tracked order. With \<open>still_exists\<close> it sets
  \<open>disappeared_count\<close> to 0 and refreshes \<open>last_seen\<close>; the status becomes the caller's
  \<open>current_status\<close> when one is given and is left as it was when none is given.
  Without \<open>still_exists\<close> it adds one to \<open>disappeared_count\<close> and sets the status to
  \<open>disappeared\<close> as soon as the count is at least 1.
\<close>

lemma update_order_status_post:
  assumes "map_of t order_id = Some order"
  shows "(\<exists>order1. map_of (update_order_status now_iso t order_id True current_status) order_id
              = Some order1 \<and>
            o_disappeared_count order1 = 0 \<and> o_last_seen order1 = now_iso \<and>
            (\<forall>s. current_status = Some s \<and> s \<noteq> [] \<longrightarrow> o_status order1 = s) \<and>
            (current_status = None \<longrightarrow> o_status order1 = o_status order))
       \<and> (\<exists>order2. map_of (update_order_status now_iso t order_id False current_status) order_id
              = Some order2 \<and>
            o_disappeared_count order2 = o_disappeared_count order + 1 \<and>
            (1 \<le> o_disappeared_count order + 1 \<longrightarrow> o_status order2 = ''disappeared''))"
  using assms by (auto simp: update_order_status_def update_conv' Let_def)

text \<open>
  C2, at a failing input. Order \<open>O1\<close> has status \<open>disappeared\<close> (its re-submission
  failed in the pass before) and the venue lists it as open again. The pass observes
  it with \<open>still_exists\<close> and without a \<open>current_status\<close>, as it does for every order:
  \<open>disappeared_count\<close> goes to 0 and the status stays \<open>disappeared\<close> instead of going
  back to \<open>active\<close>, so the same pass takes \<open>O1\<close> for a disappeared order and buys it
  once more while it is open on the venue.
\<close>

theorem reobserved_order_rebought:
  "map_option o_status (map_of ledger_disappeared ''O1'') = Some ''disappeared''
   \<and> map_option o_status
        (map_of (update_order_status ''t2'' ledger_disappeared ''O1'' True None) ''O1'')
       = Some ''disappeared''
   \<and> map_option o_disappeared_count
        (map_of (update_order_status ''t2'' ledger_disappeared ''O1'' True None) ''O1'')
       = Some 0
   \<and> open_order_ids_of
        (fst (get_open_orders (client executor_reobserved) (world executor_reobserved)))
       = [''O1'']
   \<and> fst (check_and_recreate_orders ''t2'' executor_reobserved) = 1
   \<and> calls (snd (check_and_recreate_orders ''t2'' executor_reobserved))
       = [LimitBuy (Some ''T'') (1 / 4) (5 / 2) (Inr (Response (Some ''O9'')))]"
  by code_simp

section \<open>Properties of the reconciliation pass\<close>

lemma ended_markets_of_iff:
  "order_data \<in> set disappeared \<Longrightarrow>
     o_market_slug order_data \<in> set (ended_markets_of (Some is_market_active) disappeared)
       \<longleftrightarrow> \<not> is_market_active (o_market_slug order_data)"
  by (auto simp: ended_markets_of_def)

lemma remove_order_gone: "map_of (remove_order t order_id) order_id = None"
  by (simp add: remove_order_def delete_conv')

lemma remove_market_gone: "map_of (pending_markets (remove_market q slug)) slug = None"
  by (simp add: remove_market_def delete_conv')

lemma mark_order_filled_status:
  "map_of t order_id = Some cur \<Longrightarrow>
     map_of (mark_order_filled t order_id) order_id = Some (cur\<lparr>o_status := ''filled''\<rparr>)"
  by (simp add: mark_order_filled_def update_conv')

lemma recreate_one_ended:
  "o_market_slug od \<in> set ended \<Longrightarrow>
     recreate_one now_iso ended (ex, n) od =
       (ex\<lparr>order_monitor := remove_order (order_monitor ex) (o_order_id od),
           market_queue := map_option (\<lambda>q. remove_market q (o_market_slug od)) (market_queue ex)\<rparr>,
        n)"
  by (simp add: recreate_one_def)

lemma recreate_one_balance_error:
  "o_market_slug od \<notin> set ended \<Longrightarrow>
   get_token_balance (client ex) (o_token_id od) (world ex) = (Inl e, w1) \<Longrightarrow>
     recreate_one now_iso ended (ex, n) od = (ex\<lparr>world := w1\<rparr>, n)"
  by (simp add: recreate_one_def)

lemma recreate_one_filled:
  "o_market_slug od \<notin> set ended \<Longrightarrow>
   get_token_balance (client ex) (o_token_id od) (world ex) = (Inr b, w1) \<Longrightarrow>
   b > 1 / 10 \<Longrightarrow>
     recreate_one now_iso ended (ex, n) od =
       (ex\<lparr>world := w1,
           order_monitor := mark_order_filled (order_monitor ex) (o_order_id od)\<rparr>, n)"
  by (simp add: recreate_one_def)

lemma recreate_one_unparsed:
  "o_market_slug od \<notin> set ended \<Longrightarrow>
   get_token_balance (client ex) (o_token_id od) (world ex) = (Inr b, w1) \<Longrightarrow>
   \<not> b > 1 / 10 \<Longrightarrow>
   Decimal (o_price od) = Inl e \<or> Decimal (o_size od) = Inl e \<Longrightarrow>
     recreate_one now_iso ended (ex, n) od = (ex\<lparr>world := w1\<rparr>, n)"
  by (auto simp: recreate_one_def Let_def split: sum.splits)

lemma recreate_one_attempt:
  assumes "o_market_slug od \<notin> set ended"
      and "get_token_balance (client ex) (o_token_id od) (world ex) = (Inr b, w1)"
      and "\<not> b > 1 / 10"
      and "Decimal (o_price od) = Inr price"
      and "Decimal (o_size od) = Inr size'"
      and "resubmit (client ex) od price size' w1 = (r, w2)"
  shows "recreate_one now_iso ended (ex, n) od =
     (case r of
        Inr (Response (Some new_order_id)) \<Rightarrow>
          (ex\<lparr>world := w2, calls := calls ex @ [resubmit_call od price size' r],
              order_monitor :=
                mark_order_recreated
                  (add_order now_iso (order_monitor ex) new_order_id (o_token_id od)
                     (o_market_slug od) (o_side od) price size' (o_entry_number od) None)
                  (o_order_id od) new_order_id\<rparr>, n + 1)
      | _ \<Rightarrow> (ex\<lparr>world := w2, calls := calls ex @ [resubmit_call od price size' r]\<rparr>, n))"
  using assms
  by (auto simp: recreate_one_def Let_def
           split: sum.splits response.splits option.splits)

text \<open>Every step extends the calls by nothing or by one re-submission, the latter
  only for an order whose market is not ended and whose balance reading is at most 0.1.\<close>

lemma recreate_one_calls:
  assumes "recreate_one now_iso ended (ex, n) od = (ex1, n1)"
  shows "calls ex1 = calls ex \<or>
         (o_market_slug od \<notin> set ended \<and>
          (\<exists>b w1 price size' r.
             get_token_balance (client ex) (o_token_id od) (world ex) = (Inr b, w1) \<and>
             b \<le> 1 / 10 \<and> Decimal (o_price od) = Inr price \<and>
             Decimal (o_size od) = Inr size' \<and>
             r = fst (resubmit (client ex) od price size' w1) \<and>
             calls ex1 = calls ex @ [resubmit_call od price size' r]))"
proof (cases "o_market_slug od \<in> set ended")
  case True
  then show ?thesis using assms by (auto simp: recreate_one_ended)
next
  case False
  obtain rb w1 where bal: "get_token_balance (client ex) (o_token_id od) (world ex) = (rb, w1)"
    by (cases "get_token_balance (client ex) (o_token_id od) (world ex)")
  show ?thesis
  proof (cases rb)
    case (Inl e)
    then show ?thesis using assms False bal by (auto simp: recreate_one_balance_error)
  next
    case (Inr b)
    show ?thesis
    proof (cases "b > 1 / 10")
      case True
      then show ?thesis using assms False bal Inr by (auto simp: recreate_one_filled)
    next
      case nb: False
      show ?thesis
      proof (cases "Decimal (o_price od)")
        case (Inl e)
        then show ?thesis
          using assms recreate_one_unparsed [OF False bal [unfolded Inr] nb, of e now_iso n]
          by auto
      next
        case pr: (Inr price)
        show ?thesis
        proof (cases "Decimal (o_size od)")
          case (Inl e)
          then show ?thesis
            using assms recreate_one_unparsed [OF False bal [unfolded Inr] nb, of e now_iso n]
            by auto
        next
          case sz: (Inr size')
          obtain r w2 where pl: "resubmit (client ex) od price size' w1 = (r, w2)"
            by (cases "resubmit (client ex) od price size' w1")
          have "calls ex1 = calls ex @ [resubmit_call od price size' r]"
            using assms recreate_one_attempt [OF False bal [unfolded Inr] nb pr sz pl, of now_iso n]
            by (auto split: sum.splits response.splits option.splits)
          then show ?thesis
            using False bal Inr nb pr sz pl by auto
        qed
      qed
    qed
  qed
qed

lemma recreate_loop_calls_length:
  "length (calls (fst (foldl (recreate_one now_iso ended) st ds)))
     \<le> length (calls (fst st)) + length ds"
proof (induction ds arbitrary: st)
  case Nil
  show ?case by simp
next
  case (Cons od ds)
  obtain ex n where st: "st = (ex, n)" by (cases st)
  obtain ex1 n1 where s1: "recreate_one now_iso ended (ex, n) od = (ex1, n1)"
    by (cases "recreate_one now_iso ended (ex, n) od")
  have "length (calls ex1) \<le> length (calls ex) + 1"
    using recreate_one_calls [OF s1] by auto
  then show ?case
    using Cons.IH [of "(ex1, n1)"] by (simp add: st s1)
qed

text \<open>
  C3. For a disappeared order that the pass processes, with the scanner's
  \<open>is_market_active\<close> deciding the ended markets: if the order's market is inactive,
  the order is removed from the ledger, the market is evicted from the queue and no
  order is placed; if the market is active and the balance read for the token exceeds
  0.1, the order is marked \<open>filled\<close> and no order is placed; a placement is made only
  when the market is active and the balance read is at most 0.1, and then it is the
  one re-submission of the same token, side, price and size.
\<close>

theorem reconciliation_safety:
  fixes ex :: "'w TradeExecutor"
  assumes scanner: "market_scanner ex = Some is_market_active"
      and member: "order_data \<in> set disappeared"
      and step: "recreate_one now_iso (ended_markets_of (market_scanner ex) disappeared)
                   (ex, n) order_data = (ex1, n1)"
  shows "(\<not> is_market_active (o_market_slug order_data) \<longrightarrow>
            order_monitor ex1 = remove_order (order_monitor ex) (o_order_id order_data) \<and>
            map_of (order_monitor ex1) (o_order_id order_data) = None \<and>
            market_queue ex1 =
              map_option (\<lambda>q. remove_market q (o_market_slug order_data)) (market_queue ex) \<and>
            (\<forall>q1. market_queue ex1 = Some q1 \<longrightarrow>
               map_of (pending_markets q1) (o_market_slug order_data) = None) \<and>
            calls ex1 = calls ex \<and> n1 = n)
       \<and> (is_market_active (o_market_slug order_data) \<longrightarrow>
            (\<forall>b w1. get_token_balance (client ex) (o_token_id order_data) (world ex)
                       = (Inr b, w1) \<and> b > 1 / 10 \<longrightarrow>
               order_monitor ex1 = mark_order_filled (order_monitor ex) (o_order_id order_data) \<and>
               (\<forall>cur. map_of (order_monitor ex) (o_order_id order_data) = Some cur \<longrightarrow>
                  map_of (order_monitor ex1) (o_order_id order_data)
                    = Some (cur\<lparr>o_status := ''filled''\<rparr>)) \<and>
               calls ex1 = calls ex \<and> n1 = n))
       \<and> (calls ex1 \<noteq> calls ex \<longrightarrow>
            is_market_active (o_market_slug order_data) \<and>
            (\<exists>b w1 price size' r.
               get_token_balance (client ex) (o_token_id order_data) (world ex) = (Inr b, w1) \<and>
               b \<le> 1 / 10 \<and>
               Decimal (o_price order_data) = Inr price \<and>
               Decimal (o_size order_data) = Inr size' \<and>
               calls ex1 = calls ex @ [resubmit_call order_data price size' r]))
       \<and> (is_market_active (o_market_slug order_data) \<longrightarrow>
            (\<forall>b w1 price size'.
               get_token_balance (client ex) (o_token_id order_data) (world ex) = (Inr b, w1) \<and>
               b \<le> 1 / 10 \<and>
               Decimal (o_price order_data) = Inr price \<and>
               Decimal (o_size order_data) = Inr size' \<longrightarrow>
               (\<exists>r. calls ex1 = calls ex @ [resubmit_call order_data price size' r])))"
proof -
  let ?ended = "ended_markets_of (market_scanner ex) disappeared"
  have ended: "o_market_slug order_data \<in> set ?ended
                 \<longleftrightarrow> \<not> is_market_active (o_market_slug order_data)"
    using ended_markets_of_iff [OF member] scanner by simp
  have a: "\<not> is_market_active (o_market_slug order_data) \<Longrightarrow>
             ex1 = ex\<lparr>order_monitor := remove_order (order_monitor ex) (o_order_id order_data),
                      market_queue := map_option (\<lambda>q. remove_market q (o_market_slug order_data))
                                        (market_queue ex)\<rparr> \<and> n1 = n"
    using step ended by (auto simp: recreate_one_ended)
  have c1: "\<not> is_market_active (o_market_slug order_data) \<longrightarrow>
            order_monitor ex1 = remove_order (order_monitor ex) (o_order_id order_data) \<and>
            map_of (order_monitor ex1) (o_order_id order_data) = None \<and>
            market_queue ex1 =
              map_option (\<lambda>q. remove_market q (o_market_slug order_data)) (market_queue ex) \<and>
            (\<forall>q1. market_queue ex1 = Some q1 \<longrightarrow>
               map_of (pending_markets q1) (o_market_slug order_data) = None) \<and>
            calls ex1 = calls ex \<and> n1 = n"
    using a by (auto simp: remove_order_gone remove_market_gone)
  have b: "\<And>b w1. is_market_active (o_market_slug order_data) \<Longrightarrow>
             get_token_balance (client ex) (o_token_id order_data) (world ex) = (Inr b, w1) \<Longrightarrow>
             b > 1 / 10 \<Longrightarrow>
             ex1 = ex\<lparr>world := w1,
                      order_monitor := mark_order_filled (order_monitor ex) (o_order_id order_data)\<rparr>
             \<and> n1 = n"
    using step ended by (auto simp: recreate_one_filled)
  have c2: "is_market_active (o_market_slug order_data) \<longrightarrow>
            (\<forall>b w1. get_token_balance (client ex) (o_token_id order_data) (world ex)
                       = (Inr b, w1) \<and> b > 1 / 10 \<longrightarrow>
               order_monitor ex1 = mark_order_filled (order_monitor ex) (o_order_id order_data) \<and>
               (\<forall>cur. map_of (order_monitor ex) (o_order_id order_data) = Some cur \<longrightarrow>
                  map_of (order_monitor ex1) (o_order_id order_data)
                    = Some (cur\<lparr>o_status := ''filled''\<rparr>)) \<and>
               calls ex1 = calls ex \<and> n1 = n)"
    using b by (auto simp: mark_order_filled_status)
  have c3: "calls ex1 \<noteq> calls ex \<longrightarrow>
            is_market_active (o_market_slug order_data) \<and>
            (\<exists>b w1 price size' r.
               get_token_balance (client ex) (o_token_id order_data) (world ex) = (Inr b, w1) \<and>
               b \<le> 1 / 10 \<and>
               Decimal (o_price order_data) = Inr price \<and>
               Decimal (o_size order_data) = Inr size' \<and>
               calls ex1 = calls ex @ [resubmit_call order_data price size' r])"
    using recreate_one_calls [OF step] ended by blast
  have d: "\<And>b w1 price size'. is_market_active (o_market_slug order_data) \<Longrightarrow>
             get_token_balance (client ex) (o_token_id order_data) (world ex) = (Inr b, w1) \<Longrightarrow>
             b \<le> 1 / 10 \<Longrightarrow> Decimal (o_price order_data) = Inr price \<Longrightarrow>
             Decimal (o_size order_data) = Inr size' \<Longrightarrow>
             \<exists>r. calls ex1 = calls ex @ [resubmit_call order_data price size' r]"
  proof -
    fix b w1 price size'
    assume act: "is_market_active (o_market_slug order_data)"
       and bal: "get_token_balance (client ex) (o_token_id order_data) (world ex) = (Inr b, w1)"
       and le: "b \<le> 1 / 10"
       and pr: "Decimal (o_price order_data) = Inr price"
       and sz: "Decimal (o_size order_data) = Inr size'"
    obtain r w2 where pl: "resubmit (client ex) order_data price size' w1 = (r, w2)"
      by (cases "resubmit (client ex) order_data price size' w1")
    have notin: "o_market_slug order_data \<notin> set ?ended" using ended act by simp
    have nb: "\<not> b > 1 / 10" using le by simp
    have "calls ex1 = calls ex @ [resubmit_call order_data price size' r]"
      using step recreate_one_attempt [OF notin bal nb pr sz pl, of now_iso n]
      by (auto split: sum.splits response.splits option.splits)
    then show "\<exists>r. calls ex1 = calls ex @ [resubmit_call order_data price size' r]" by blast
  qed
  have c4: "is_market_active (o_market_slug order_data) \<longrightarrow>
            (\<forall>b w1 price size'.
               get_token_balance (client ex) (o_token_id order_data) (world ex) = (Inr b, w1) \<and>
               b \<le> 1 / 10 \<and>
               Decimal (o_price order_data) = Inr price \<and>
               Decimal (o_size order_data) = Inr size' \<longrightarrow>
               (\<exists>r. calls ex1 = calls ex @ [resubmit_call order_data price size' r]))"
    using d by blast
  show ?thesis using c1 c2 c3 c4 by blast
qed

theorem reconciliation_safety_witness:
  "market_scanner (executor_with False 0 (Inr NoResponse)) = Some (\<lambda>slug. False)
   \<and> order_sample \<in> set [order_sample]
   \<and> map_of (order_monitor (fst (step_sample False 0 (Inr NoResponse)))) ''O1'' = None
   \<and> map_option pending_markets (market_queue (fst (step_sample False 0 (Inr NoResponse))))
       = Some []
   \<and> calls (fst (step_sample False 0 (Inr NoResponse))) = []
   \<and> map_option o_status
        (map_of (order_monitor (fst (step_sample True 12 (Inr (Response (Some ''O9'')))))) ''O1'')
       = Some ''filled''
   \<and> calls (fst (step_sample True 12 (Inr (Response (Some ''O9''))))) = []
   \<and> calls (fst (step_sample True 0 (Inr (Response (Some ''O9'')))))
       = [LimitBuy (Some ''T'') (1 / 4) (5 / 2) (Inr (Response (Some ''O9'')))]
   \<and> map_option o_recreated_as
        (map_of (order_monitor (fst (step_sample True 0 (Inr (Response (Some ''O9'')))))) ''O1'')
       = Some (Some ''O9'')"
proof -
  have s: "\<And>active balance answer. market_scanner (executor_with active balance answer)
             = Some (\<lambda>slug. active)"
    by (simp add: executor_with_def)
  have m: "order_sample \<in> set [order_sample]" by simp
  have st: "\<And>active balance answer.
      recreate_one ''t2''
        (ended_markets_of (market_scanner (executor_with active balance answer)) [order_sample])
        (executor_with active balance answer, 0) order_sample
      = (fst (step_sample active balance answer), snd (step_sample active balance answer))"
    by (simp add: step_sample_def)
  have e1: "map_of (order_monitor (fst (step_sample False 0 (Inr NoResponse)))) ''O1'' = None"
    by code_simp
  have e2: "map_option pending_markets (market_queue (fst (step_sample False 0 (Inr NoResponse))))
              = Some []"
    by code_simp
  have e3: "calls (fst (step_sample False 0 (Inr NoResponse))) = []"
    by code_simp
  have e4: "map_option o_status
        (map_of (order_monitor (fst (step_sample True 12 (Inr (Response (Some ''O9'')))))) ''O1'')
       = Some ''filled''"
    by code_simp
  have e5: "calls (fst (step_sample True 12 (Inr (Response (Some ''O9''))))) = []"
    by code_simp
  have e6: "calls (fst (step_sample True 0 (Inr (Response (Some ''O9'')))))
       = [LimitBuy (Some ''T'') (1 / 4) (5 / 2) (Inr (Response (Some ''O9'')))]"
    by code_simp
  have e7: "map_option o_recreated_as
        (map_of (order_monitor (fst (step_sample True 0 (Inr (Response (Some ''O9'')))))) ''O1'')
       = Some (Some ''O9'')"
    by code_simp
  show ?thesis
    using s [of False 0 "Inr NoResponse"] m e1 e2 e3 e4 e5 e6 e7
      reconciliation_safety [OF s [of False 0 "Inr NoResponse"] m st [of False 0 "Inr NoResponse"]]
      reconciliation_safety [OF s [of True 12 "Inr (Response (Some ''O9''))"] m
        st [of True 12 "Inr (Response (Some ''O9''))"]]
      reconciliation_safety [OF s [of True 0 "Inr (Response (Some ''O9''))"] m
        st [of True 0 "Inr (Response (Some ''O9''))"]]
    by blast
qed

text \<open>
  When the re-submission of a disappeared order ends in an exception, in no response
  or in a response without the key \<open>orderID\<close>, the iteration changes only the world
  and the record of calls: the ledger and the count are as they were.
\<close>

lemma recreation_failure_isolated:
  fixes ex :: "'w TradeExecutor"
  assumes "o_market_slug od \<notin> set ended"
      and "get_token_balance (client ex) (o_token_id od) (world ex) = (Inr b, w1)"
      and "b \<le> 1 / 10"
      and "Decimal (o_price od) = Inr price"
      and "Decimal (o_size od) = Inr size'"
      and "resubmit (client ex) od price size' w1 = (r, w2)"
      and "\<forall>new_order_id. r \<noteq> Inr (Response (Some new_order_id))"
  shows "recreate_one now_iso ended (ex, n) od
           = (ex\<lparr>world := w2, calls := calls ex @ [resubmit_call od price size' r]\<rparr>, n)"
proof -
  have nb: "\<not> b > 1 / 10" using assms(3) by simp
  show ?thesis
    using recreate_one_attempt [OF assms(1) assms(2) nb assms(4) assms(5) assms(6), of now_iso n]
          assms(7)
    by (auto split: sum.splits response.splits option.splits)
qed


text \<open>
  C1, at a failing input. Order \<open>O1\<close> is in the terminal state \<open>recreated\<close> and its
  replacement \<open>O2\<close> is open on the venue. One more missed observation sets \<open>O1\<close>
  back to \<open>disappeared\<close>, as it does for a \<open>filled\<close> order, and the next
  reconciliation pass submits \<open>O1\<close> once more.
\<close>

theorem terminal_status_reflagged:
  "map_option o_status (map_of ledger_recreated ''O1'') = Some ''recreated''
   \<and> map_option o_status
        (map_of (update_order_status ''t2'' ledger_recreated ''O1'' False None) ''O1'')
       = Some ''disappeared''
   \<and> map_option o_status
        (map_of (update_order_status ''t2'' (mark_order_filled ledger_disappeared ''O1'')
                   ''O1'' False None) ''O1'')
       = Some ''disappeared''
   \<and> fst (check_and_recreate_orders ''t2'' executor_sample) = 1
   \<and> calls (snd (check_and_recreate_orders ''t2'' executor_sample))
       = [LimitBuy (Some ''T'') (1 / 4) (5 / 2) (Inr (Response (Some ''O3'')))]"
  by code_simp

section \<open>Properties of the exit pass\<close>

lemma place_take_profit_orders_calls:
  assumes "place_take_profit_orders now_iso ex token_id market_slug tp_price sz = (oid, ex1)"
  shows "\<exists>r. calls ex1 = calls ex @ [LimitSell token_id tp_price sz r] \<and>
             (str_truthy oid \<longleftrightarrow> (\<exists>i. r = Inr (Response (Some i)) \<and> i \<noteq> []))"
proof -
  obtain r w1 where pl: "place_limit_sell (client ex) token_id tp_price sz (world ex) = (r, w1)"
    by (cases "place_limit_sell (client ex) token_id tp_price sz (world ex)")
  show ?thesis
    using assms pl
    by (auto simp: place_take_profit_orders_def Let_def
             split: sum.splits response.splits option.splits)
qed

lemma issued_total_single:
  "issued_total t [LimitSell t' p s r] =
     (if t' = t \<and> (\<exists>i. r = Inr (Response (Some i)) \<and> i \<noteq> []) then s else 0)"
  by (cases "(t, LimitSell t' p s r)" rule: issued_size.cases) (auto simp: issued_total_def)

lemma issued_total_append:
  "issued_total t (cs1 @ cs2) = issued_total t cs1 + issued_total t cs2"
  by (simp add: issued_total_def)

lemma issued_total_Nil: "issued_total t [] = 0"
  by (simp add: issued_total_def)

text \<open>One iteration either changes nothing or makes one sell call for the unsold
  size; the accumulator moves to the position size exactly when the sell is issued.\<close>

lemma tp_one_cases:
  assumes "tp_one now_iso tf fs apm pc (ex, existing, n) p = (ex1, existing1, n1)"
  shows "(ex1 = ex \<and> existing1 = existing \<and> n1 = n)
       \<or> (\<exists>sz tp r. Decimal_get (p_size p) = Inr sz \<and>
             1 / 10 < sz - sell_size existing (p_asset p) \<and>
             calls ex1 = calls ex @ [LimitSell (p_asset p) tp (sz - sell_size existing (p_asset p)) r] \<and>
             (if \<exists>i. r = Inr (Response (Some i)) \<and> i \<noteq> []
              then existing1 = existing(p_asset p \<mapsto> sz) \<and> n1 = n + 1
              else existing1 = existing \<and> n1 = n))"
proof (cases "Decimal_get (p_size p)")
  case (Inl e)
  then show ?thesis using assms by (auto simp: tp_one_def)
next
  case sz: (Inr sz)
  let ?slug = "case p_slug p of None \<Rightarrow> ''unknown'' | Some s \<Rightarrow> s"
  let ?unsold = "sz - sell_size existing (p_asset p)"
  show ?thesis
  proof (cases "Decimal_get (p_avgPrice p)")
    case (Inl e)
    then show ?thesis using assms sz by (auto simp: tp_one_def)
  next
    case avg: (Inr avg)
    show ?thesis
    proof (cases "sz < 1 / 10 \<or> ?slug \<in> apm \<or> ?unsold \<le> 1 / 10")
      case True
      then have "tp_one now_iso tf fs apm pc (ex, existing, n) p = (ex, existing, n)"
        unfolding tp_one_def Let_def using sz avg
        by (simp del: divide_less_eq_numeral1 less_divide_eq_numeral1
                      le_divide_eq_numeral1 divide_le_eq_numeral1) blast
      then show ?thesis using assms by simp
    next
      case go: False
      show ?thesis
      proof (cases "resolve_start_price pc (order_monitor ex) ?slug (p_asset p)")
        case (Inl e)
        then show ?thesis using assms sz avg go by (auto simp: tp_one_def Let_def)
      next
        case rs: (Inr spd)
        show ?thesis
        proof (cases spd)
          case None
          then show ?thesis using assms sz avg go rs by (auto simp: tp_one_def Let_def)
        next
          case (Some pd)
          show ?thesis
          proof (cases "tp_price_of tf fs pd")
            case (Inl e)
            then show ?thesis using assms sz avg go rs Some by (auto simp: tp_one_def Let_def)
          next
            case tpr: (Inr tpo)
            show ?thesis
            proof (cases tpo)
              case None
              then show ?thesis
                using assms sz avg go rs Some tpr by (auto simp: tp_one_def Let_def)
            next
              case tp: (Some tp)
              obtain oid ex2 where pl:
                "place_take_profit_orders now_iso ex (p_asset p) ?slug tp ?unsold = (oid, ex2)"
                by (cases "place_take_profit_orders now_iso ex (p_asset p) ?slug tp ?unsold")
              obtain r where r: "calls ex2 = calls ex @ [LimitSell (p_asset p) tp ?unsold r]"
                  "str_truthy oid \<longleftrightarrow> (\<exists>i. r = Inr (Response (Some i)) \<and> i \<noteq> [])"
                using place_take_profit_orders_calls [OF pl] by blast
              have res: "(ex1, existing1, n1) =
                  (if str_truthy oid
                   then (ex2, existing(p_asset p \<mapsto> sell_size existing (p_asset p) + ?unsold), n + 1)
                   else (ex2, existing, n))"
                using assms sz avg go rs Some tpr tp pl by (simp add: tp_one_def Let_def)
              have "1 / 10 < ?unsold" using go by simp
              then show ?thesis
                using res r sz by (auto split: if_splits)
            qed
          qed
        qed
      qed
    qed
  qed
qed

lemma sell_size_upd:
  "sell_size (existing(k \<mapsto> v)) t = (if t = k then v else sell_size existing t)"
  by (simp add: sell_size_def)

lemma tp_one_invariant:
  assumes "tp_one now_iso tf fs apm pc (ex, existing, n) p = (ex1, existing1, n1)"
  shows "\<exists>cs. calls ex1 = calls ex @ cs \<and>
           (\<forall>t. sell_size existing1 t = sell_size existing t + issued_total t cs) \<and>
           (\<forall>t. issued_total t cs = 0 \<or>
                (p_asset p = t \<and> (\<exists>sz. Decimal_get (p_size p) = Inr sz \<and> sell_size existing1 t = sz)))"
  using tp_one_cases [OF assms]
proof (elim disjE exE conjE)
  assume "ex1 = ex" "existing1 = existing" "n1 = n"
  then have "calls ex1 = calls ex @ []" by simp
  then show ?thesis using \<open>existing1 = existing\<close> by (metis issued_total_Nil add.right_neutral)
next
  fix sz tp r
  assume sz: "Decimal_get (p_size p) = Inr sz"
     and cs: "calls ex1 = calls ex @ [LimitSell (p_asset p) tp (sz - sell_size existing (p_asset p)) r]"
     and upd: "if \<exists>i. r = Inr (Response (Some i)) \<and> i \<noteq> []
               then existing1 = existing(p_asset p \<mapsto> sz) \<and> n1 = n + 1
               else existing1 = existing \<and> n1 = n"
  let ?cs = "[LimitSell (p_asset p) tp (sz - sell_size existing (p_asset p)) r]"
  have a: "\<forall>t. sell_size existing1 t = sell_size existing t + issued_total t ?cs"
    using upd by (auto simp: issued_total_single sell_size_upd split: if_splits)
  have b: "\<forall>t. issued_total t ?cs = 0 \<or>
             (p_asset p = t \<and> (\<exists>sz. Decimal_get (p_size p) = Inr sz \<and> sell_size existing1 t = sz))"
    using upd sz by (auto simp: issued_total_single sell_size_upd split: if_splits)
  show ?thesis using cs a b by blast
qed

lemma tp_loop_invariant:
  "foldl (tp_one now_iso tf fs apm pc) (ex, existing, n) ps = (ex1, existing1, n1) \<Longrightarrow>
     \<exists>cs. calls ex1 = calls ex @ cs \<and>
       (\<forall>t. sell_size existing1 t = sell_size existing t + issued_total t cs) \<and>
       (\<forall>t. issued_total t cs = 0 \<or>
            (\<exists>p\<in>set ps. \<exists>sz. p_asset p = t \<and> Decimal_get (p_size p) = Inr sz \<and>
                             sell_size existing1 t = sz))"
proof (induction ps arbitrary: ex existing n)
  case Nil
  then have "calls ex1 = calls ex @ []" "existing1 = existing" by simp_all
  then show ?case by (metis issued_total_Nil add.right_neutral)
next
  case (Cons p ps)
  obtain ex2 existing2 n2 where
    s: "tp_one now_iso tf fs apm pc (ex, existing, n) p = (ex2, existing2, n2)"
    by (cases "tp_one now_iso tf fs apm pc (ex, existing, n) p")
  obtain cs1 where c1: "calls ex2 = calls ex @ cs1"
      "\<forall>t. sell_size existing2 t = sell_size existing t + issued_total t cs1"
      "\<forall>t. issued_total t cs1 = 0 \<or>
           (p_asset p = t \<and> (\<exists>sz. Decimal_get (p_size p) = Inr sz \<and> sell_size existing2 t = sz))"
    using tp_one_invariant [OF s] by blast
  have rest: "foldl (tp_one now_iso tf fs apm pc) (ex2, existing2, n2) ps = (ex1, existing1, n1)"
    using Cons.prems s by simp
  obtain cs2 where c2: "calls ex1 = calls ex2 @ cs2"
      "\<forall>t. sell_size existing1 t = sell_size existing2 t + issued_total t cs2"
      "\<forall>t. issued_total t cs2 = 0 \<or>
           (\<exists>q\<in>set ps. \<exists>sz. p_asset q = t \<and> Decimal_get (p_size q) = Inr sz \<and>
                            sell_size existing1 t = sz)"
    using Cons.IH [OF rest] by blast
  have a: "calls ex1 = calls ex @ (cs1 @ cs2)" using c1(1) c2(1) by simp
  have b: "\<forall>t. sell_size existing1 t = sell_size existing t + issued_total t (cs1 @ cs2)"
    using c1(2) c2(2) by (simp add: issued_total_append)
  have c: "\<forall>t. issued_total t (cs1 @ cs2) = 0 \<or>
            (\<exists>q\<in>set (p # ps). \<exists>sz. p_asset q = t \<and> Decimal_get (p_size q) = Inr sz \<and>
                                   sell_size existing1 t = sz)"
  proof
    fix t
    show "issued_total t (cs1 @ cs2) = 0 \<or>
            (\<exists>q\<in>set (p # ps). \<exists>sz. p_asset q = t \<and> Decimal_get (p_size q) = Inr sz \<and>
                                   sell_size existing1 t = sz)"
    proof (cases "issued_total t cs2 = 0")
      case False
      then show ?thesis using c2(3) by auto
    next
      case z2: True
      show ?thesis
      proof (cases "issued_total t cs1 = 0")
        case True
        then show ?thesis using z2 by (simp add: issued_total_append)
      next
        case False
        then obtain sz where "p_asset p = t" "Decimal_get (p_size p) = Inr sz"
            "sell_size existing2 t = sz"
          using c1(3) by blast
        moreover have "sell_size existing1 t = sell_size existing2 t" using c2(2) z2 by simp
        ultimately show ?thesis by auto
      qed
    qed
  qed
  show ?case using a b c by blast
qed

text \<open>
  C4. In one exit pass, with the positions and the open orders that the venue
  returned, the sell orders issued for a token add up to nothing or to at most the
  size of a position on that token minus the open sell size found at the start, also
  when several positions carry the token; the accumulator \<open>existing_sell_orders\<close> of
  the loop is the initial sell size plus everything issued so far, which is what
  keeps a later position on the token from selling the same shares again.
\<close>

theorem no_double_sell:
  fixes ex :: "'w TradeExecutor"
  assumes positions: "get_all_positions (client ex) (world ex) = (all_positions, w1)"
      and orders: "get_open_orders (client ex) w1 = (all_open_orders, w2)"
      and sells: "build_existing_sell_orders all_open_orders Map.empty = Inr existing"
      and loop: "foldl (tp_one now_iso to_float float_sub already_profitable_markets price_cache)
                   (ex\<lparr>world := w2\<rparr>, existing, 0) all_positions = (ex1, existing1, tp_placed)"
  shows "\<exists>cs ex2. check_filled_positions_and_set_tp now_iso to_float float_sub ex
                      already_profitable_markets price_cache = Inr (tp_placed, ex2) \<and>
           calls ex2 = calls ex @ cs \<and> calls ex1 = calls ex @ cs \<and>
           (\<forall>t. sell_size existing1 t = sell_size existing t + issued_total t cs) \<and>
           (\<forall>t. issued_total t cs = 0 \<or>
                (\<exists>p\<in>set all_positions. \<exists>sz. p_asset p = t \<and> Decimal_get (p_size p) = Inr sz \<and>
                    issued_total t cs \<le> sz - sell_size existing t))"
proof -
  obtain cs where cs: "calls ex1 = calls (ex\<lparr>world := w2\<rparr>) @ cs"
      "\<forall>t. sell_size existing1 t = sell_size existing t + issued_total t cs"
      "\<forall>t. issued_total t cs = 0 \<or>
            (\<exists>p\<in>set all_positions. \<exists>sz. p_asset p = t \<and> Decimal_get (p_size p) = Inr sz \<and>
                             sell_size existing1 t = sz)"
    using tp_loop_invariant [OF loop] by blast
  have bound: "\<forall>t. issued_total t cs = 0 \<or>
                (\<exists>p\<in>set all_positions. \<exists>sz. p_asset p = t \<and> Decimal_get (p_size p) = Inr sz \<and>
                    issued_total t cs \<le> sz - sell_size existing t)"
  proof
    fix t
    show "issued_total t cs = 0 \<or>
                (\<exists>p\<in>set all_positions. \<exists>sz. p_asset p = t \<and> Decimal_get (p_size p) = Inr sz \<and>
                    issued_total t cs \<le> sz - sell_size existing t)"
    proof (cases "issued_total t cs = 0")
      case True
      then show ?thesis by simp
    next
      case False
      then obtain p sz where p: "p \<in> set all_positions" "p_asset p = t"
          "Decimal_get (p_size p) = Inr sz" "sell_size existing1 t = sz"
        using cs(3) by blast
      have "issued_total t cs = sz - sell_size existing t" using cs(2) p(4) by (simp add: algebra_simps)
      then show ?thesis using p by auto
    qed
  qed
  show ?thesis
  proof (cases "all_positions = []")
    case True
    then have "ex1 = ex\<lparr>world := w2\<rparr>" "tp_placed = 0" using loop by simp_all
    then have "cs = []" using cs(1) by simp
    moreover have "check_filled_positions_and_set_tp now_iso to_float float_sub ex
                      already_profitable_markets price_cache = Inr (0, ex\<lparr>world := w1\<rparr>)"
      using positions True by (simp add: check_filled_positions_and_set_tp_def)
    ultimately show ?thesis
      using cs bound \<open>tp_placed = 0\<close> \<open>ex1 = ex\<lparr>world := w2\<rparr>\<close>
      by (intro exI [of _ "[]"] exI [of _ "ex\<lparr>world := w1\<rparr>"]) simp
  next
    case False
    then have "check_filled_positions_and_set_tp now_iso to_float float_sub ex
                      already_profitable_markets price_cache = Inr (tp_placed, ex1)"
      using positions orders sells loop by (simp add: check_filled_positions_and_set_tp_def)
    then show ?thesis using cs bound by (intro exI [of _ cs] exI [of _ ex1]) simp
  qed
qed

theorem no_double_sell_witness:
  "get_all_positions
      (client (exit_executor [] [position_sample 10, position_sample 20] [sell_order_sample]))
      (world (exit_executor [] [position_sample 10, position_sample 20] [sell_order_sample]))
     = ([position_sample 10, position_sample 20], 0)
   \<and> get_open_orders
        (client (exit_executor [] [position_sample 10, position_sample 20] [sell_order_sample])) 0
       = ([sell_order_sample], 0)
   \<and> build_existing_sell_orders [sell_order_sample] Map.empty
       = Inr (Map.empty(Some ''T'' \<mapsto> 3))
   \<and> exit_pass_sample [] [position_sample 10, position_sample 20] [sell_order_sample]
        cache_sample
       = Some (2, [LimitSell (Some ''T'') (17 / 25) 7 (Inr (Response (Some ''S1''))),
                   LimitSell (Some ''T'') (17 / 25) 10 (Inr (Response (Some ''S1'')))])
   \<and> issued_total (Some ''T'')
        [LimitSell (Some ''T'') (17 / 25) 7 (Inr (Response (Some ''S1''))),
         LimitSell (Some ''T'') (17 / 25) 10 (Inr (Response (Some ''S1'')))] = 17
   \<and> (17 :: rat) \<le> 20 - sell_size (Map.empty(Some ''T'' \<mapsto> 3)) (Some ''T'')"
proof -
  let ?ps = "[position_sample 10, position_sample 20]"
  let ?E = "exit_executor [] ?ps [sell_order_sample]"
  let ?R = "foldl (tp_one ''t3'' (\<lambda>d. d) (\<lambda>a b. a - b) {} cache_sample)
              (?E\<lparr>world := 0\<rparr>, Map.empty(Some ''T'' \<mapsto> 3), 0) ?ps"
  have h1: "get_all_positions (client ?E) (world ?E) = (?ps, 0)"
    by (simp add: exit_executor_def)
  have h2: "get_open_orders (client ?E) 0 = ([sell_order_sample], 0)"
    by (simp add: exit_executor_def)
  have h3: "build_existing_sell_orders [sell_order_sample] Map.empty
              = Inr (Map.empty(Some ''T'' \<mapsto> 3))"
    by (simp add: sell_order_sample_def)
  have h4: "?R = (fst ?R, fst (snd ?R), snd (snd ?R))" by simp
  have e1: "exit_pass_sample [] ?ps [sell_order_sample] cache_sample
       = Some (2, [LimitSell (Some ''T'') (17 / 25) 7 (Inr (Response (Some ''S1''))),
                   LimitSell (Some ''T'') (17 / 25) 10 (Inr (Response (Some ''S1'')))])"
    by code_simp
  have e2: "issued_total (Some ''T'')
        [LimitSell (Some ''T'') (17 / 25) 7 (Inr (Response (Some ''S1''))),
         LimitSell (Some ''T'') (17 / 25) 10 (Inr (Response (Some ''S1'')))] = 17"
    by (simp add: issued_total_def)
  have e3: "(17 :: rat) \<le> 20 - sell_size (Map.empty(Some ''T'' \<mapsto> 3)) (Some ''T'')"
    by (simp add: sell_size_def)
  show ?thesis
    using h1 h2 h3 e1 e2 e3 no_double_sell [OF h1 h2 h3 h4]
    by blast
qed

lemma resolve_start_price_cache_hit:
  "map_of price_cache (market_slug @ '':'' @ str_token token_id) = Some pd \<Longrightarrow>
   dict_truthy pd \<Longrightarrow>
     resolve_start_price price_cache t market_slug token_id = Inr (Some pd)"
  by (simp add: resolve_start_price_def)

text \<open>
  C5, at a failing input. The reference price of market \<open>S\<close> and token \<open>T\<close> is in
  the cache, as \<open>cache_price\<close> wrote it, and both entry orders of the market are in
  the ledger with a strong-team price of 70 cents. The pass takes the cache entry,
  finds no \<open>strong_team_price_cents\<close> in it and skips the position: no sell is
  placed. With an empty cache the same pass rebuilds the start price from the ledger
  and places the sell at 0.68. A position as the repository's own client builds it
  is skipped whatever the cache holds.
\<close>

theorem cached_price_skips_exit:
  "get_cached_price (cache_price ''c0'' [] ''S'' ''T'' (3 / 10) ''Blue'') ''S'' ''T''
     = Inr (Some (3 / 10))
   \<and> exit_pass_sample ledger_entries [position_sample 21] []
        (cache_price ''c0'' [] ''S'' ''T'' (3 / 10) ''Blue'') = Some (0, [])
   \<and> exit_pass_sample ledger_entries [position_sample 21] [] []
       = Some (1, [LimitSell (Some ''T'') (17 / 25) 21 (Inr (Response (Some ''S1'')))])
   \<and> exit_pass_sample ledger_entries [position_from_client] [] cache_sample = Some (0, [])"
  by code_simp

end
